theory Spec2Isabelle
  imports Complex_Main "HOL-Library.Sublist" "HOL-Library.AList"
begin

section \<open>Python values and the operations bundle.py applies to them\<close>

text \<open>
  The script works on the values \<^verbatim>\<open>json.loads\<close> and \<^verbatim>\<open>response.json()\<close> return:
  \<^verbatim>\<open>None\<close>, booleans, integers, floats, strings, lists and dictionaries with string
  keys. A dictionary is kept as the list of its items (the keys of a Python dictionary are
  unique, so the first match of a lookup is the only one).
\<close>

datatype pyfloat = FNum rat | FInf | FNegInf | FNaN

datatype json =
    JNull
  | JBool bool
  | JInt int
  | JFloat pyfloat
  | JStr string
  | JArr "json list"
  | JObj "(string \<times> json) list"

text \<open>Every exception the script can raise or let through, and \<^verbatim>\<open>exit(code)\<close>.\<close>

datatype error =
    KeyError
  | TypeError
  | IndexError
  | ValueError string
  | AssertionError
  | JSONDecodeError
  | UnicodeDecodeError
  | CalledProcessError
  | OSError
  | RequestException
  | AttributeError
  | BadZipFile
  | SystemExit int

definition bind_err :: "error + 'a \<Rightarrow> ('a \<Rightarrow> error + 'b) \<Rightarrow> error + 'b" where
  "bind_err m f = (case m of Inl e \<Rightarrow> Inl e | Inr x \<Rightarrow> f x)"

text \<open>\<^verbatim>\<open>v[key]\<close> with a string key: only a dictionary accepts it, and a missing key raises.\<close>

fun getitem_str :: "json \<Rightarrow> string \<Rightarrow> error + json" where
  "getitem_str (JObj kvs) k = (case map_of kvs k of None \<Rightarrow> Inl KeyError | Some v \<Rightarrow> Inr v)"
| "getitem_str _ k = Inl TypeError"

text \<open>\<^verbatim>\<open>v[i]\<close> with a non-negative integer index.\<close>

fun getitem_int :: "json \<Rightarrow> nat \<Rightarrow> error + json" where
  "getitem_int (JArr xs) i = (if i < length xs then Inr (xs ! i) else Inl IndexError)"
| "getitem_int (JStr s) i = (if i < length s then Inr (JStr [s ! i]) else Inl IndexError)"
| "getitem_int (JObj kvs) i = Inl KeyError"
| "getitem_int _ i = Inl TypeError"

text \<open>Truth value of a Python object, as \<^verbatim>\<open>not v\<close> tests it.\<close>

fun truthy :: "json \<Rightarrow> bool" where
  "truthy JNull = False"
| "truthy (JBool b) = b"
| "truthy (JInt n) = (n \<noteq> 0)"
| "truthy (JFloat (FNum q)) = (q \<noteq> 0)"
| "truthy (JFloat _) = True"
| "truthy (JStr s) = (s \<noteq> [])"
| "truthy (JArr xs) = (xs \<noteq> [])"
| "truthy (JObj kvs) = (kvs \<noteq> [])"

fun is_str :: "json \<Rightarrow> bool" where
  "is_str (JStr s) = True"
| "is_str _ = False"

fun is_list :: "json \<Rightarrow> bool" where
  "is_list (JArr xs) = True"
| "is_list _ = False"

fun py_len :: "json \<Rightarrow> error + nat" where
  "py_len (JArr xs) = Inr (length xs)"
| "py_len (JStr s) = Inr (length s)"
| "py_len (JObj kvs) = Inr (length kvs)"
| "py_len _ = Inl TypeError"

text \<open>The string held by a value already known to be a \<^verbatim>\<open>str\<close>.\<close>

fun str_val :: "json \<Rightarrow> string" where
  "str_val (JStr s) = s"
| "str_val _ = []"

section \<open>get\_cargo\_metadata: the checks on the parsed document\<close>

record CargoMetadata =
  target_directory :: string
  package_name :: string

text \<open>
  Lines 91 to 114 of bundle.py, on the value \<^verbatim>\<open>json.loads\<close> returned. The source
  evaluates \<^verbatim>\<open>metadata["target_directory"]\<close>, \<^verbatim>\<open>metadata["packages"]\<close> and
  \<^verbatim>\<open>metadata["packages"][0]["name"]\<close> again at each test; the subscripts have no
  effect, so each is bound once here, at its first occurrence.
\<close>

definition check_cargo_metadata :: "json \<Rightarrow> error + CargoMetadata" where
  "check_cargo_metadata metadata =
     bind_err (getitem_str metadata ''target_directory'') (\<lambda>td.
       if td = JNull then
         Inl (ValueError ''The returned json object didn't define a \"target_directory\" property'')
       else if \<not> is_str td then Inl (ValueError ''target_directory is not a string'')
       else
         bind_err (getitem_str metadata ''packages'') (\<lambda>pkgs.
           if \<not> truthy pkgs then
             Inl (ValueError ''The returned json object didn't define a \"packages\" property'')
           else if \<not> is_list pkgs then Inl (ValueError ''packages is not a list'')
           else
             bind_err (py_len pkgs) (\<lambda>n.
               if n \<noteq> 1 then Inl (ValueError ''packages is not a list of length 1'')
               else
                 bind_err (getitem_int pkgs 0) (\<lambda>pkg.
                   bind_err (getitem_str pkg ''name'') (\<lambda>name.
                     if name = JNull then
                       Inl (ValueError ''The package didn't define a \"name\" property'')
                     else if \<not> is_str name then Inl (ValueError ''name is not a string'')
                     else
                       Inr \<lparr>target_directory = str_val td, package_name = str_val name\<rparr>)))))"

section \<open>Paths\<close>

text \<open>
  Inside bundle a \<^verbatim>\<open>pathlib.Path\<close> is the list of its components, the drive first.
  This is the path of a file below the root of a lettered drive
  (\<^verbatim>\<open>C:/app/target\<close>), which is what the build tool reports and what the script's own
  constant is. The model has these absolute paths only, no symbolic links, and compares
  names exactly (Windows compares them without case). The root of a drive by itself, a
  path on a network share and a relative path are outside it: \<open>path_of\<close> and
  \<open>path_str\<close> do not keep their anchors. Where a property is about a string the
  script was handed from outside (the argument of build\_rust\_binary), \<^verbatim>\<open>pathlib\<close>
  is a parameter instead, see below.
\<close>

type_synonym path = "string list"

definition is_sep :: "char \<Rightarrow> bool" where
  "is_sep c = (c = CHR ''/'' \<or> c = CHR 0x5C)"

text \<open>Splitting at the separators; \<open>cur\<close> is the component being read.\<close>

fun split_sep :: "string \<Rightarrow> string \<Rightarrow> string list" where
  "split_sep cur [] = [cur]"
| "split_sep cur (c # cs) = (if is_sep c then cur # split_sep [] cs else split_sep (cur @ [c]) cs)"

text \<open>\<^verbatim>\<open>Path(s)\<close>: empty components and \<^verbatim>\<open>.\<close> are dropped, \<^verbatim>\<open>..\<close> is kept.\<close>

definition path_of :: "string \<Rightarrow> path" where
  "path_of s = filter (\<lambda>c. c \<noteq> [] \<and> c \<noteq> ''.'') (split_sep [] s)"

fun join_with :: "string \<Rightarrow> string list \<Rightarrow> string" where
  "join_with sep [] = []"
| "join_with sep [c] = c"
| "join_with sep (c # d # cs) = c @ sep @ join_with sep (d # cs)"

text \<open>\<^verbatim>\<open>str(p)\<close> of a Windows path.\<close>

definition path_str :: "path \<Rightarrow> string" where
  "path_str p = join_with [CHR 0x5C] p"

text \<open>\<^verbatim>\<open>p.joinpath(s)\<close> for a relative \<open>s\<close> (every use in the script is one).\<close>

definition joinpath :: "path \<Rightarrow> string \<Rightarrow> path" where
  "joinpath p s = p @ path_of s"

text \<open>
  \<^verbatim>\<open>p.resolve()\<close>: each \<^verbatim>\<open>..\<close> removes the component before it, but never the
  first one, the drive: above the root of a drive there is nothing to go to.
\<close>

fun resolve_acc :: "path \<Rightarrow> path \<Rightarrow> path" where
  "resolve_acc acc [] = acc"
| "resolve_acc acc (c # cs) =
     (if c = ''..'' then resolve_acc (if length acc \<le> 1 then acc else butlast acc) cs
      else resolve_acc (acc @ [c]) cs)"

definition resolve :: "path \<Rightarrow> path" where
  "resolve p = resolve_acc [] p"

definition path_name :: "path \<Rightarrow> string" where
  "path_name p = (if p = [] then [] else last p)"

definition path_parent :: "path \<Rightarrow> path" where
  "path_parent p = butlast p"

text \<open>
  \<^verbatim>\<open>p.with_suffix(sfx)\<close>: the suffix of the name starts at its last dot, when that
  dot is neither the first nor the last character.
\<close>

fun rfind_dot :: "string \<Rightarrow> nat option" where
  "rfind_dot [] = None"
| "rfind_dot (c # cs) =
     (case rfind_dot cs of
        Some i \<Rightarrow> Some (Suc i)
      | None \<Rightarrow> if c = CHR ''.'' then Some 0 else None)"

definition path_stem :: "string \<Rightarrow> string" where
  "path_stem name =
     (case rfind_dot name of
        None \<Rightarrow> name
      | Some i \<Rightarrow> if 0 < i \<and> i < length name - 1 then take i name else name)"

definition with_suffix :: "path \<Rightarrow> string \<Rightarrow> path" where
  "with_suffix p sfx = butlast p @ [path_stem (path_name p) @ sfx]"

section \<open>The file system\<close>

text \<open>
  A file system is the list of its nodes by path. File metadata (the timestamps that
  \<^verbatim>\<open>copy2\<close> preserves) is not modelled. Every file-system failure is \<open>OSError\<close>
  (FileNotFoundError, FileExistsError, PermissionError and shutil.SameFileError are
  subclasses of it).
\<close>

datatype node = Dir | File string

type_synonym filesys = "(path \<times> node) list"

definition path_exists :: "filesys \<Rightarrow> path \<Rightarrow> bool" where
  "path_exists fs p = (p = [] \<or> map_of fs p \<noteq> None)"

definition is_dir :: "filesys \<Rightarrow> path \<Rightarrow> bool" where
  "is_dir fs p = (p = [] \<or> map_of fs p = Some Dir)"

text \<open>
  \<^verbatim>\<open>p.mkdir(parents=True, exist_ok=True)\<close>: walking down from the root, a directory that
  exists is kept, a missing one is created, and a file in the way is an error.
\<close>

fun mkdirs :: "filesys \<Rightarrow> path \<Rightarrow> path \<Rightarrow> error + filesys" where
  "mkdirs fs pre [] = Inr fs"
| "mkdirs fs pre (c # cs) =
     (case map_of fs (pre @ [c]) of
        Some Dir \<Rightarrow> mkdirs fs (pre @ [c]) cs
      | Some (File x) \<Rightarrow> Inl OSError
      | None \<Rightarrow> mkdirs (AList.update (pre @ [c]) Dir fs) (pre @ [c]) cs)"

definition mkdir_parents :: "filesys \<Rightarrow> path \<Rightarrow> error + filesys" where
  "mkdir_parents fs p = mkdirs fs [] p"

text \<open>
  Opening \<open>p\<close> for writing and storing \<open>content\<close>: the parent must be a directory and
  \<open>p\<close> itself must not be one; an existing file is replaced.
\<close>

definition write_file :: "filesys \<Rightarrow> path \<Rightarrow> string \<Rightarrow> error + filesys" where
  "write_file fs p content =
     (if p = [] \<or> map_of fs p = Some Dir \<or> \<not> is_dir fs (butlast p) then Inl OSError
      else Inr (AList.update p (File content) fs))"

text \<open>
  \<^verbatim>\<open>shutil.copy2(src, dst)\<close>: a directory as \<open>dst\<close> means the file of the same name in
  it; copying a file onto itself is SameFileError; the source must be a file.
\<close>

definition copy2 :: "filesys \<Rightarrow> path \<Rightarrow> path \<Rightarrow> error + filesys" where
  "copy2 fs src dst =
     (let dst' = (if is_dir fs dst then dst @ [path_name src] else dst)
      in if src = dst' \<and> path_exists fs src then Inl OSError
         else (case map_of fs src of
                 Some (File content) \<Rightarrow> write_file fs dst' content
               | _ \<Rightarrow> Inl OSError))"

text \<open>
  \<^verbatim>\<open>d.glob("*.dll")\<close>: the entries of the directory \<open>d\<close> whose name ends in
  \<^verbatim>\<open>.dll\<close>, files and directories alike; nothing when \<open>d\<close> is no directory.
\<close>

definition glob_dll :: "filesys \<Rightarrow> path \<Rightarrow> path list" where
  "glob_dll fs d =
     (if is_dir fs d
      then filter (\<lambda>p. p \<noteq> [] \<and> butlast p = d \<and> suffix ''.dll'' (last p)) (remdups (map fst fs))
      else [])"

section \<open>The world the script runs in\<close>

text \<open>
  What the script calls but does not define, and cannot be computed from the script's own
  state: the processes it starts, the two HTTP endpoints, and the library functions
  for JSON, text and archives. They are parameters of the model.

  So is \<^verbatim>\<open>pathlib\<close> where build\_rust\_binary hands it a string it was given: what
  \<^verbatim>\<open>Path(s)\<close>, \<^verbatim>\<open>p.joinpath(rel)\<close> and \<^verbatim>\<open>p.resolve()\<close> return depends on the
  drive, the working directory and the links of the machine. A \<^verbatim>\<open>Path\<close> object is
  kept there as the string \<^verbatim>\<open>str\<close> gives for it: \<open>path_new s\<close> is \<^verbatim>\<open>Path(s)\<close>,
  \<open>path_join p rel\<close> is \<^verbatim>\<open>p.joinpath(rel)\<close> and \<open>path_resolve p\<close> is
  \<^verbatim>\<open>p.resolve()\<close>.
\<close>

datatype proc_result = SpawnFailed | Exited int string

record http_response =
  status_code :: int
  body_json :: "json option"

record externals =
  run_process :: "string list \<Rightarrow> (string \<rightharpoonup> string) \<Rightarrow> filesys \<Rightarrow> proc_result \<times> filesys"
  decode_utf8 :: "string \<Rightarrow> string option"
  splitlines :: "string \<Rightarrow> string list"
  json_loads :: "string \<Rightarrow> json option"
  json_dumps :: "json \<Rightarrow> string"
  py_repr :: "json \<Rightarrow> string"
  http_get :: "string \<Rightarrow> http_response option"
  urlopen_read :: "string \<Rightarrow> error + string"
  unzip :: "string \<Rightarrow> (path \<times> node) list option"
  zip_bytes :: "filesys \<Rightarrow> path \<Rightarrow> string"
  path_new :: "string \<Rightarrow> string"
  path_join :: "string \<Rightarrow> string \<Rightarrow> string"
  path_resolve :: "string \<Rightarrow> string"

text \<open>
  The observable actions, in the order they happen. \<open>Run argv env\<close> is a call of
  \<^verbatim>\<open>subprocess.run\<close>; \<open>env\<close> is the mapping given as \<^verbatim>\<open>env=\<close>, or \<open>None\<close>
  when the child inherits the environment of the script.
\<close>

datatype event =
    Print string
  | Run "string list" "(string \<rightharpoonup> string) option"
  | HttpGet string
  | UrlOpen string
  | ExtractAll path
  | MakeArchive string path

text \<open>
  The state: the file system, the dictionary objects by address, and the actions so far.
  Address 0 is \<^verbatim>\<open>os.environ\<close>; the dictionaries the script creates get the addresses
  \<open>1, 2, ...\<close>, and \<open>allocated\<close> counts them.
\<close>

record world =
  files :: filesys
  dicts :: "nat \<Rightarrow> (string \<rightharpoonup> string)"
  allocated :: nat
  events :: "event list"

definition environ_ref :: nat where
  "environ_ref = 0"

type_synonym 'a io = "world \<Rightarrow> (error + 'a) \<times> world"

definition ret :: "'a \<Rightarrow> 'a io" where
  "ret x = (\<lambda>w. (Inr x, w))"

definition raise :: "error \<Rightarrow> 'a io" where
  "raise e = (\<lambda>w. (Inl e, w))"

definition bind_io :: "'a io \<Rightarrow> ('a \<Rightarrow> 'b io) \<Rightarrow> 'b io" where
  "bind_io m f = (\<lambda>w. case m w of (Inl e, w') \<Rightarrow> (Inl e, w') | (Inr x, w') \<Rightarrow> f x w')"

definition then_io :: "'a io \<Rightarrow> 'b io \<Rightarrow> 'b io" where
  "then_io m n = bind_io m (\<lambda>x. n)"

definition lift_err :: "error + 'a \<Rightarrow> 'a io" where
  "lift_err r = (\<lambda>w. (r, w))"

text \<open>Statements one after the other.\<close>

fun seq_io :: "unit io list \<Rightarrow> unit io" where
  "seq_io [] = ret ()"
| "seq_io (m # ms) = then_io m (seq_io ms)"

text \<open>\<^verbatim>\<open>try: m except: h\<close>; the bare \<^verbatim>\<open>except\<close> catches every exception.\<close>

definition try_except :: "'a io \<Rightarrow> (error \<Rightarrow> 'a io) \<Rightarrow> 'a io" where
  "try_except m h = (\<lambda>w. case m w of (Inl e, w') \<Rightarrow> h e w' | (Inr x, w') \<Rightarrow> (Inr x, w'))"

definition emit :: "event \<Rightarrow> unit io" where
  "emit e = (\<lambda>w. (Inr (), w\<lparr>events := events w @ [e]\<rparr>))"

definition py_print :: "string \<Rightarrow> unit io" where
  "py_print s = emit (Print s)"

definition py_exit :: "int \<Rightarrow> 'a io" where
  "py_exit code = raise (SystemExit code)"

definition fs_apply :: "(filesys \<Rightarrow> error + filesys) \<Rightarrow> unit io" where
  "fs_apply f = (\<lambda>w. case f (files w) of Inl e \<Rightarrow> (Inl e, w) | Inr fs' \<Rightarrow> (Inr (), w\<lparr>files := fs'\<rparr>))"

definition fs_read :: "(filesys \<Rightarrow> 'a) \<Rightarrow> 'a io" where
  "fs_read f = (\<lambda>w. (Inr (f (files w)), w))"

text \<open>\<^verbatim>\<open>d.copy()\<close> makes a new dictionary object with the items of \<open>d\<close>.\<close>

definition dict_copy :: "nat \<Rightarrow> nat io" where
  "dict_copy r = (\<lambda>w. (Inr (Suc (allocated w)),
     w\<lparr>dicts := (dicts w)(Suc (allocated w) := dicts w r), allocated := Suc (allocated w)\<rparr>))"

text \<open>\<^verbatim>\<open>d[k]\<close> and \<^verbatim>\<open>d[k] = v\<close> on the dictionary object at address \<open>r\<close>.\<close>

definition dict_get :: "nat \<Rightarrow> string \<Rightarrow> string io" where
  "dict_get r k = (\<lambda>w. case dicts w r k of None \<Rightarrow> (Inl KeyError, w) | Some v \<Rightarrow> (Inr v, w))"

definition dict_set :: "nat \<Rightarrow> string \<Rightarrow> string \<Rightarrow> unit io" where
  "dict_set r k v = (\<lambda>w. (Inr (), w\<lparr>dicts := (dicts w)(r := (dicts w r)(k \<mapsto> v))\<rparr>))"

text \<open>
  \<^verbatim>\<open>subprocess.run(argv, env=..., check=...)\<close>: the call is recorded, the process may
  change the file system, and the captured output is returned. A program that cannot
  be started raises; with \<^verbatim>\<open>check=True\<close> a non-zero exit status raises
  CalledProcessError.
\<close>

definition subprocess_run :: "externals \<Rightarrow> string list \<Rightarrow> nat option \<Rightarrow> bool \<Rightarrow> string io" where
  "subprocess_run ext argv env_ref check = (\<lambda>w.
     let env = map_option (dicts w) env_ref;
         child_env = (case env of None \<Rightarrow> dicts w environ_ref | Some e \<Rightarrow> e);
         w1 = w\<lparr>events := events w @ [Run argv env]\<rparr>
     in case run_process ext argv child_env (files w) of
          (SpawnFailed, fs') \<Rightarrow> (Inl OSError, w1)
        | (Exited rc out, fs') \<Rightarrow>
            if check \<and> rc \<noteq> 0 then (Inl CalledProcessError, w1\<lparr>files := fs'\<rparr>)
            else (Inr out, w1\<lparr>files := fs'\<rparr>))"

section \<open>get\_cargo\_metadata\<close>

definition get_cargo_metadata :: "externals \<Rightarrow> CargoMetadata io" where
  "get_cargo_metadata ext =
     bind_io (subprocess_run ext
                [''cargo'', ''metadata'', ''--no-deps'', ''--format-version'', ''1''] None True)
       (\<lambda>out. lift_err
          (case decode_utf8 ext out of
             None \<Rightarrow> Inl UnicodeDecodeError
           | Some text \<Rightarrow>
               (case json_loads ext text of
                  None \<Rightarrow> Inl JSONDecodeError
                | Some metadata \<Rightarrow> check_cargo_metadata metadata)))"

section \<open>build\_rust\_binary\<close>

text \<open>
  Lines 30 to 34: the copy of \<^verbatim>\<open>os.environ\<close> and the three assignments to it. The
  right-hand side of an assignment is evaluated first, so a missing \<^verbatim>\<open>PATH\<close> or
  \<^verbatim>\<open>LIB\<close> raises KeyError at its line. The result is the address of \<^verbatim>\<open>my_env\<close>.
  The three directories are computed by \<^verbatim>\<open>pathlib\<close> from the string the function was
  given.
\<close>

definition prepare_env :: "externals \<Rightarrow> string \<Rightarrow> nat io" where
  "prepare_env ext gtk_bin_dir_arg =
     (let gtk_bin_dir = path_new ext gtk_bin_dir_arg in
      bind_io (dict_copy environ_ref) (\<lambda>my_env.
      then_io (dict_set my_env ''PKG_CONFIG_PATH''
                 (path_resolve ext (path_join ext gtk_bin_dir ''../lib/pkgconfig'')))
     (bind_io (dict_get my_env ''PATH'') (\<lambda>old_path.
      then_io (dict_set my_env ''PATH'' (old_path @ '';'' @ path_resolve ext gtk_bin_dir))
     (bind_io (dict_get my_env ''LIB'') (\<lambda>old_lib.
      then_io (dict_set my_env ''LIB''
                 (old_lib @ '';'' @ path_resolve ext (path_join ext gtk_bin_dir ''../lib'')))
              (ret my_env)))))))"

text \<open>Lines 37 to 54: the build, and the second build for its messages when the first fails.\<close>

definition run_build :: "externals \<Rightarrow> nat \<Rightarrow> string io" where
  "run_build ext my_env =
     try_except
       (subprocess_run ext
          [''cargo'', ''build'', ''--release'', ''--message-format'', ''json''] (Some my_env) True)
       (\<lambda>e. then_io
               (py_print ''Re-running cargo build without capturing stdout to see all errors:\<newline>'')
              (then_io (subprocess_run ext [''cargo'', ''build'', ''--release''] (Some my_env) False)
                 (raise e)))"

text \<open>
  Lines 59 to 66: the loop over the lines of the build output; \<open>binaries\<close> is the list
  built so far.
\<close>

fun collect_binaries :: "externals \<Rightarrow> string list \<Rightarrow> string list \<Rightarrow> error + string list" where
  "collect_binaries ext [] binaries = Inr binaries"
| "collect_binaries ext (line # rest) binaries =
     (case json_loads ext line of
        None \<Rightarrow> Inl JSONDecodeError
      | Some msg \<Rightarrow>
          (case getitem_str msg ''reason'' of
             Inl e \<Rightarrow> Inl e
           | Inr reason \<Rightarrow>
               if reason \<noteq> JStr ''compiler-artifact'' then collect_binaries ext rest binaries
               else
                 (case getitem_str msg ''executable'' of
                    Inl e \<Rightarrow> Inl e
                  | Inr exe \<Rightarrow>
                      if \<not> truthy exe \<or> \<not> is_str exe then collect_binaries ext rest binaries
                      else collect_binaries ext rest (binaries @ [str_val exe]))))"

text \<open>Lines 57 to 70: decoding, the loop, the assertion and the result.\<close>

definition find_binary :: "externals \<Rightarrow> string \<Rightarrow> error + string" where
  "find_binary ext out =
     (case decode_utf8 ext out of
        None \<Rightarrow> Inl UnicodeDecodeError
      | Some text \<Rightarrow>
          bind_err (collect_binaries ext (splitlines ext text) []) (\<lambda>binaries.
            if length binaries \<noteq> 1 then Inl AssertionError
            else Inr (binaries ! 0)))"

definition build_rust_binary :: "externals \<Rightarrow> string \<Rightarrow> string io" where
  "build_rust_binary ext gtk_bin_dir =
     bind_io (prepare_env ext gtk_bin_dir) (\<lambda>my_env.
     bind_io (run_build ext my_env) (\<lambda>out.
     lift_err (find_binary ext out)))"

section \<open>The release download\<close>

text \<open>\<^verbatim>\<open>str(n)\<close> of an integer and \<^verbatim>\<open>str(v)\<close> of a value; \<^verbatim>\<open>sub in s\<close> on strings.\<close>

fun str_nat :: "nat \<Rightarrow> string" where
  "str_nat n =
     (if n < 10 then [''0123456789'' ! n]
      else str_nat (n div 10) @ [''0123456789'' ! (n mod 10)])"

definition str_int :: "int \<Rightarrow> string" where
  "str_int i = (if i < 0 then CHR ''-'' # str_nat (nat (- i)) else str_nat (nat i))"

definition py_str :: "externals \<Rightarrow> json \<Rightarrow> string" where
  "py_str ext v = (case v of JStr s \<Rightarrow> s | _ \<Rightarrow> py_repr ext v)"

fun py_in :: "string \<Rightarrow> string \<Rightarrow> bool" where
  "py_in sub [] = (sub = [])"
| "py_in sub (c # cs) = (prefix sub (c # cs) \<or> py_in sub cs)"

text \<open>The values a \<^verbatim>\<open>for\<close> or \<^verbatim>\<open>filter\<close> takes from an object.\<close>

fun py_iter :: "json \<Rightarrow> error + json list" where
  "py_iter (JArr xs) = Inr xs"
| "py_iter (JStr s) = Inr (map (\<lambda>c. JStr [c]) s)"
| "py_iter (JObj kvs) = Inr (map (\<lambda>kv. JStr (fst kv)) kvs)"
| "py_iter _ = Inl TypeError"

text \<open>Lines 184 to 189: the assets whose name contains \<^verbatim>\<open>GTK4\<close>.\<close>

fun filter_gtk4 :: "externals \<Rightarrow> json list \<Rightarrow> error + json list" where
  "filter_gtk4 ext [] = Inr []"
| "filter_gtk4 ext (asset # rest) =
     (case getitem_str asset ''name'' of
        Inl e \<Rightarrow> Inl e
      | Inr name \<Rightarrow>
          (case filter_gtk4 ext rest of
             Inl e \<Rightarrow> Inl e
           | Inr kept \<Rightarrow> Inr (if py_in ''GTK4'' (py_str ext name) then asset # kept else kept)))"

text \<open>
  \<^verbatim>\<open>zip_file.extractall(target)\<close>: every member of the archive is written below
  \<open>target\<close>, its directories created as needed.
\<close>

fun extractall :: "filesys \<Rightarrow> path \<Rightarrow> (path \<times> node) list \<Rightarrow> error + filesys" where
  "extractall fs target [] = Inr fs"
| "extractall fs target ((rel, Dir) # members) =
     (case mkdir_parents fs (target @ rel) of
        Inl e \<Rightarrow> Inl e
      | Inr fs' \<Rightarrow> extractall fs' target members)"
| "extractall fs target ((rel, File content) # members) =
     (case mkdir_parents fs (butlast (target @ rel)) of
        Inl e \<Rightarrow> Inl e
      | Inr fs' \<Rightarrow>
          (case write_file fs' (target @ rel) content of
             Inl e \<Rightarrow> Inl e
           | Inr fs'' \<Rightarrow> extractall fs'' target members))"

text \<open>Lines 223 to 225: \<^verbatim>\<open>urlopen\<close> accepts a string only.\<close>

definition download_and_extract :: "externals \<Rightarrow> json \<Rightarrow> path \<Rightarrow> unit io" where
  "download_and_extract ext gtk_url gtk_bin_dir =
     (if \<not> is_str gtk_url then raise AttributeError
      else
        then_io (emit (UrlOpen (str_val gtk_url)))
       (bind_io (lift_err (urlopen_read ext (str_val gtk_url))) (\<lambda>bytes.
        bind_io (lift_err (case unzip ext bytes of None \<Rightarrow> Inl BadZipFile | Some ms \<Rightarrow> Inr ms))
          (\<lambda>members.
        then_io (emit (ExtractAll gtk_bin_dir))
                (fs_apply (\<lambda>fs. extractall fs gtk_bin_dir members))))))"

text \<open>Lines 198 to 226: the checks on the asset found, then the download.\<close>

definition fetch_asset :: "externals \<Rightarrow> path \<Rightarrow> json \<Rightarrow> unit io" where
  "fetch_asset ext gtk_bin_dir gtk_asset =
     bind_io (lift_err (getitem_str gtk_asset ''name'')) (\<lambda>name.
     then_io (py_print (''Downloading amd unzipping GitHub release asset: '' @ py_str ext name))
    (bind_io (lift_err (getitem_str gtk_asset ''browser_download_url'')) (\<lambda>url.
       if url = JNull then
         then_io (py_print ''Could not download GTK release, no browser_download_url found'')
        (then_io (py_print []) (py_exit 1))
       else
         bind_io (lift_err (getitem_str gtk_asset ''content_type'')) (\<lambda>content_type.
           if content_type \<noteq> JStr ''application/zip'' then
             then_io (py_print
               (''Could not download GTK release, content_type is not application/zip, instead it was: ''
                  @ py_str ext content_type))
            (then_io (py_print []) (py_exit 1))
           else
             then_io (py_print (CHR 0x09 # ''From URL: '' @ py_str ext url))
            (then_io (py_print (CHR 0x09 # ''To folder at: '' @ path_str gtk_bin_dir))
            (then_io (fs_apply (\<lambda>fs. mkdir_parents fs gtk_bin_dir))
            (then_io (download_and_extract ext url gtk_bin_dir)
                     (py_print []))))))))"

text \<open>Lines 168 to 226: the release listing, its checks, and the asset.\<close>

definition releases_url :: string where
  "releases_url = ''https://api.github.com/repos/wingtk/gvsbuild/releases/latest''"

definition download_gtk_release :: "externals \<Rightarrow> path \<Rightarrow> unit io" where
  "download_gtk_release ext gtk_bin_dir =
     then_io (emit (HttpGet releases_url))
    (bind_io (lift_err (case http_get ext releases_url of
                          None \<Rightarrow> Inl RequestException | Some r \<Rightarrow> Inr r)) (\<lambda>response.
       if status_code response \<noteq> 200 then
         then_io (py_print (''Could not download GTK release, HTTP status code: ''
                              @ str_int (status_code response)))
        (then_io (py_print []) (py_exit 1))
       else
         bind_io (lift_err (case body_json response of
                              None \<Rightarrow> Inl JSONDecodeError | Some d \<Rightarrow> Inr d)) (\<lambda>data.
         bind_io (lift_err (getitem_str data ''assets'')) (\<lambda>assets.
         bind_io (lift_err (if assets = JNull then Inr True
                            else bind_err (py_len assets) (\<lambda>n. Inr (n = 0)))) (\<lambda>no_assets.
           if no_assets then
             then_io (py_print ''Could not download GTK release, no assets found'')
            (then_io (py_print []) (py_exit 1))
           else
             bind_io (lift_err (bind_err (py_iter assets) (filter_gtk4 ext))) (\<lambda>gtk_assets.
               if length gtk_assets \<noteq> 1 then
                 then_io (py_print
                   ''Could not download GTK release, no assets with the name GTK4 was found'')
                (then_io (py_print ''Found assets:'')
                (then_io (py_print (json_dumps ext assets))
                (then_io (py_print []) (py_exit 1))))
               else fetch_asset ext gtk_bin_dir (gtk_assets ! 0)))))))"

section \<open>bundle\<close>

text \<open>The flags \<^verbatim>\<open>parse_args\<close> returns.\<close>

record args =
  show_binary :: bool
  show_zip :: bool
  download_gtk :: bool

text \<open>Lines 120 and 121: a trailing path separator is cut off.\<close>

definition strip_sep :: "string \<Rightarrow> string" where
  "strip_sep file = (if file \<noteq> [] \<and> is_sep (last file) then butlast file else file)"

definition show_file_in_explorer :: "externals \<Rightarrow> string \<Rightarrow> unit io" where
  "show_file_in_explorer ext file =
     then_io (subprocess_run ext [''explorer'', ''/select,'', strip_sep file] None False) (ret ())"

text \<open>Lines 156 to 231: where the toolkit's \<^verbatim>\<open>bin\<close> directory is, downloading it if asked.\<close>

definition acquire_gtk :: "externals \<Rightarrow> args \<Rightarrow> CargoMetadata \<Rightarrow> path io" where
  "acquire_gtk ext a cargo_meta =
     (if download_gtk a then
        then_io (py_print
          ''Downloading latest GTK release by gvsbuild from https://github.com/wingtk/gvsbuild/releases'')
       (then_io (py_print [])
       (let gtk_bin_dir = joinpath (path_of (target_directory cargo_meta)) ''./gtk-from-github''
        in bind_io (fs_read (\<lambda>fs. path_exists fs gtk_bin_dir)) (\<lambda>found.
           then_io
             (if found then
                then_io (py_print (''GTK release already downloaded at: '' @ path_str gtk_bin_dir))
                        (py_print [])
              else download_gtk_release ext gtk_bin_dir)
             (ret (joinpath gtk_bin_dir ''bin'')))))
      else ret (path_of ''C:/gtk-build/gtk/x64/release/bin''))"

text \<open>Lines 233 to 249.\<close>

definition require_gtk :: "path \<Rightarrow> unit io" where
  "require_gtk gtk_bin_dir =
     bind_io (fs_read (\<lambda>fs. path_exists fs gtk_bin_dir)) (\<lambda>found.
       if \<not> found then
         then_io (py_print (''Could not find GTK bin folder at: '' @ path_str gtk_bin_dir))
        (then_io (py_print [])
        (then_io (py_print ''- To build GTK from source follow the instructions at'')
        (then_io (py_print ''  https://github.com/wingtk/gvsbuild?tab=readme-ov-file#build-gtk'')
        (then_io (py_print [])
        (then_io (py_print
           ''- Alternatively specify the --download-gtk flag to automatically download'')
        (then_io (py_print
           ''  the latest GTK release by gvsbuild from https://github.com/wingtk/gvsbuild/releases'')
        (then_io (py_print []) (py_exit 1))))))))
       else
         then_io (py_print (''Found GTK bin folder at: '' @ path_str gtk_bin_dir)) (py_print []))"

text \<open>Lines 261 to 263: one copy for each entry the glob found.\<close>

fun copy_dlls :: "path list \<Rightarrow> path \<Rightarrow> unit io" where
  "copy_dlls [] bundle_dir = ret ()"
| "copy_dlls (dll # rest) bundle_dir =
     then_io (py_print (CHR 0x09 # path_str dll))
    (then_io (fs_apply (\<lambda>fs. copy2 fs dll bundle_dir))
             (copy_dlls rest bundle_dir))"

text \<open>
  Lines 289 to 291: \<^verbatim>\<open>open("w")\<close> creates the file or empties it, and each
  \<^verbatim>\<open>write\<close> adds to its end.
\<close>

definition append_file :: "filesys \<Rightarrow> path \<Rightarrow> string \<Rightarrow> error + filesys" where
  "append_file fs p s =
     (case map_of fs p of
        Some (File content) \<Rightarrow> Inr (AList.update p (File (content @ s)) fs)
      | _ \<Rightarrow> Inl OSError)"

definition write_settings :: "path \<Rightarrow> unit io" where
  "write_settings settings_ini =
     then_io (fs_apply (\<lambda>fs. write_file fs settings_ini []))
    (then_io (fs_apply (\<lambda>fs. append_file fs settings_ini ''[Settings]\<newline>''))
             (fs_apply (\<lambda>fs. append_file fs settings_ini ''gtk-font-name=Segoe UI 10\<newline>'')))"

text \<open>Lines 255 to 292: the bundle directory and the toolkit files in it.\<close>

definition create_bundle_dir :: "path \<Rightarrow> unit io" where
  "create_bundle_dir bundle_dir =
     seq_io [py_print (''Creating bundle directory at: '' @ path_str bundle_dir),
             fs_apply (\<lambda>fs. mkdir_parents fs bundle_dir),
             py_print []]"

definition copy_dll_files :: "path \<Rightarrow> path \<Rightarrow> unit io" where
  "copy_dll_files gtk_bin_dir bundle_dir =
     then_io (py_print ''Copying DLL files...'')
    (bind_io (fs_read (\<lambda>fs. glob_dll fs gtk_bin_dir)) (\<lambda>dlls.
     then_io (copy_dlls dlls bundle_dir) (py_print [])))"

definition copy_gdbus :: "path \<Rightarrow> path \<Rightarrow> unit io" where
  "copy_gdbus gtk_bin_dir bundle_dir =
     (let gdbus_exe = joinpath gtk_bin_dir ''gdbus.exe'' in
      seq_io [py_print ''Copying ancillary binaries...'',
              py_print (CHR 0x09 # path_str gdbus_exe),
              fs_apply (\<lambda>fs. copy2 fs gdbus_exe bundle_dir),
              py_print []])"

definition copy_schemas :: "path \<Rightarrow> path \<Rightarrow> unit io" where
  "copy_schemas gtk_bin_dir bundle_dir =
     (let glib_compiled_schemas =
            resolve (joinpath gtk_bin_dir ''../share/glib-2.0/schemas/gschemas.compiled'');
          schema_out_dir = joinpath bundle_dir ''./share/glib-2.0/schemas'' in
      seq_io [py_print ''Copying glib compiled schemas...'',
              fs_apply (\<lambda>fs. mkdir_parents fs schema_out_dir),
              py_print (CHR 0x09 # path_str glib_compiled_schemas),
              fs_apply (\<lambda>fs. copy2 fs glib_compiled_schemas schema_out_dir),
              py_print []])"

definition create_settings :: "path \<Rightarrow> unit io" where
  "create_settings bundle_dir =
     (let settings_ini = joinpath bundle_dir ''./share/gtk-4.0/settings.ini'' in
      seq_io [py_print ''Creating \"share/gtk-4.0/settings.ini\" to specify font'',
              py_print (CHR 0x09 # ''At: '' @ path_str settings_ini),
              fs_apply (\<lambda>fs. mkdir_parents fs (path_parent settings_ini)),
              write_settings settings_ini,
              py_print []])"

definition assemble_bundle :: "path \<Rightarrow> path \<Rightarrow> unit io" where
  "assemble_bundle gtk_bin_dir bundle_dir =
     seq_io [create_bundle_dir bundle_dir,
             copy_dll_files gtk_bin_dir bundle_dir,
             copy_gdbus gtk_bin_dir bundle_dir,
             copy_schemas gtk_bin_dir bundle_dir,
             create_settings bundle_dir]"

text \<open>Lines 302 to 313: the build, and the copy of the binary into the bundle.\<close>

definition build_and_copy :: "externals \<Rightarrow> path \<Rightarrow> path \<Rightarrow> path io" where
  "build_and_copy ext gtk_bin_dir bundle_dir =
     then_io (py_print ''Building GTK application...'')
    (then_io (py_print [])
    (bind_io (build_rust_binary ext (path_str gtk_bin_dir)) (\<lambda>rust_bin.
     then_io (py_print [])
    (let rust_bin_to = joinpath bundle_dir (path_name (path_of rust_bin)) in
     then_io (py_print ''Copying binary to bundle directory'')
    (then_io (py_print (CHR 0x09 # ''From: '' @ rust_bin))
    (then_io (py_print (CHR 0x09 # ''To:   '' @ path_str rust_bin_to))
    (then_io (fs_apply (\<lambda>fs. copy2 fs (path_of rust_bin) rust_bin_to))
    (then_io (py_print [])
             (ret rust_bin_to)))))))))"

text \<open>
  \<^verbatim>\<open>shutil.make_archive(base_name, "zip", root_dir)\<close> writes the archive of the
  directory \<open>root_dir\<close> to the file \<open>base_name\<close> with \<^verbatim>\<open>.zip\<close> added.
\<close>

definition make_archive :: "externals \<Rightarrow> string \<Rightarrow> path \<Rightarrow> unit io" where
  "make_archive ext base_name root_dir =
     then_io (emit (MakeArchive base_name root_dir))
             (fs_apply (\<lambda>fs.
                if \<not> is_dir fs root_dir then Inl OSError
                else write_file fs (path_of (base_name @ ''.zip'')) (zip_bytes ext fs root_dir)))"

text \<open>Lines 316 to 335.\<close>

definition archive_and_reveal :: "externals \<Rightarrow> args \<Rightarrow> path \<Rightarrow> path \<Rightarrow> unit io" where
  "archive_and_reveal ext a rust_bin_to bundle_dir =
     then_io
       (if show_binary a then
          then_io (py_print
            ''Showing app inside bundle folder in Windows Explorer (because of --show-binary flag)'')
         (then_io (show_file_in_explorer ext (path_str rust_bin_to)) (py_print []))
        else ret ())
    (then_io (py_print (''Zipping bundle directory to: '' @ path_str (with_suffix bundle_dir ''.zip'')))
    (then_io (make_archive ext (path_str bundle_dir) bundle_dir)
    (then_io (py_print [])
    (then_io
       (if show_zip a then
          then_io (py_print ''Showing zip file in Windows Explorer (because of --show-zip flag)'')
         (then_io (show_file_in_explorer ext (path_str (with_suffix bundle_dir ''.zip'')))
                  (py_print []))
        else ret ())
    (then_io (py_print ''Done!'') (py_print []))))))"

text \<open>Lines 233 to 335: everything after the toolkit directory is known.\<close>

definition finish_bundle :: "externals \<Rightarrow> args \<Rightarrow> CargoMetadata \<Rightarrow> path \<Rightarrow> unit io" where
  "finish_bundle ext a cargo_meta gtk_bin_dir =
     then_io (require_gtk gtk_bin_dir)
    (let bundle_dir = joinpath (path_of (target_directory cargo_meta))
                        (''./release/'' @ package_name cargo_meta @ ''-bundled'') in
     then_io (assemble_bundle gtk_bin_dir bundle_dir)
    (bind_io (build_and_copy ext gtk_bin_dir bundle_dir) (\<lambda>rust_bin_to.
     archive_and_reveal ext a rust_bin_to bundle_dir)))"

definition "bundle" :: "externals \<Rightarrow> args \<Rightarrow> unit io" where
  "bundle ext a =
     then_io (py_print [])
    (bind_io (get_cargo_metadata ext) (\<lambda>cargo_meta.
     bind_io (acquire_gtk ext a cargo_meta) (\<lambda>gtk_bin_dir.
     finish_bundle ext a cargo_meta gtk_bin_dir)))"

section \<open>Reading the record of actions\<close>

text \<open>The actions of a run that starts in \<open>w\<close> and ends in \<open>w'\<close>.\<close>

definition new_events :: "world \<Rightarrow> world \<Rightarrow> event list" where
  "new_events w w' = drop (length (events w)) (events w')"

text \<open>The \<^verbatim>\<open>env=\<close> argument of each process started.\<close>

fun run_envs :: "event list \<Rightarrow> (string \<rightharpoonup> string) option list" where
  "run_envs [] = []"
| "run_envs (Run argv env # es) = env # run_envs es"
| "run_envs (e # es) = run_envs es"

section \<open>The retained messages, as the specification words them\<close>

text \<open>
  A message of the build tool is a JSON object with a \<^verbatim>\<open>reason\<close>; a
  \<^verbatim>\<open>compiler-artifact\<close> message also has an \<^verbatim>\<open>executable\<close> field (a path or null).
\<close>

definition cargo_message :: "json \<Rightarrow> bool" where
  "cargo_message msg =
     (case getitem_str msg ''reason'' of
        Inl e \<Rightarrow> False
      | Inr reason \<Rightarrow>
          (if reason = JStr ''compiler-artifact''
           then (case getitem_str msg ''executable'' of Inl e \<Rightarrow> False | Inr exe \<Rightarrow> True)
           else True))"

text \<open>
  Retained: the \<^verbatim>\<open>reason\<close> field equals \<^verbatim>\<open>"compiler-artifact"\<close> and the
  \<^verbatim>\<open>executable\<close> field is a non-empty string.
\<close>

definition retained :: "json \<Rightarrow> bool" where
  "retained msg =
     (getitem_str msg ''reason'' = Inr (JStr ''compiler-artifact'')
      \<and> (case getitem_str msg ''executable'' of Inr (JStr s) \<Rightarrow> s \<noteq> [] | _ \<Rightarrow> False))"

definition executable_of :: "json \<Rightarrow> string" where
  "executable_of msg = (case getitem_str msg ''executable'' of Inr (JStr s) \<Rightarrow> s | _ \<Rightarrow> [])"

section \<open>A concrete run\<close>

text \<open>
  A machine with the toolkit built at the fixed location, a project \<^verbatim>\<open>app\<close> in
  \<^verbatim>\<open>C:/app\<close>, and a build tool that answers with one metadata document and three
  build messages. The release listing answers 404.
\<close>

fun lines_acc :: "string \<Rightarrow> string \<Rightarrow> string list" where
  "lines_acc cur [] = (if cur = [] then [] else [cur])"
| "lines_acc cur (c # cs) =
     (if c = CHR 0x0A then cur # lines_acc [] cs else lines_acc (cur @ [c]) cs)"

definition demo_gtk_bin :: path where
  "demo_gtk_bin = [''C:'', ''gtk-build'', ''gtk'', ''x64'', ''release'', ''bin'']"

definition demo_files :: filesys where
  "demo_files =
     [([''C:''], Dir),
      ([''C:'', ''gtk-build''], Dir),
      ([''C:'', ''gtk-build'', ''gtk''], Dir),
      ([''C:'', ''gtk-build'', ''gtk'', ''x64''], Dir),
      ([''C:'', ''gtk-build'', ''gtk'', ''x64'', ''release''], Dir),
      (demo_gtk_bin, Dir),
      (demo_gtk_bin @ [''gtk-4.dll''], File ''gtk''),
      (demo_gtk_bin @ [''gdbus.exe''], File ''gdbus''),
      ([''C:'', ''gtk-build'', ''gtk'', ''x64'', ''release'', ''share'', ''glib-2.0'', ''schemas'',
        ''gschemas.compiled''], File ''schemas''),
      ([''C:'', ''app''], Dir),
      ([''C:'', ''app'', ''target''], Dir),
      ([''C:'', ''app'', ''target'', ''release''], Dir),
      ([''C:'', ''app'', ''target'', ''release'', ''app.exe''], File ''app'')]"

definition demo_metadata :: json where
  "demo_metadata =
     JObj [(''target_directory'', JStr ''C:/app/target''),
           (''packages'', JArr [JObj [(''name'', JStr ''app'')]])]"

definition demo_messages :: "json list" where
  "demo_messages =
     [JObj [(''reason'', JStr ''compiler-artifact''), (''executable'', JNull)],
      JObj [(''reason'', JStr ''compiler-artifact''),
            (''executable'', JStr ''C:/app/target/release/app.exe'')],
      JObj [(''reason'', JStr ''build-finished''), (''success'', JBool True)]]"

definition demo_loads :: "string \<Rightarrow> json option" where
  "demo_loads s =
     (if s = ''META'' then Some demo_metadata
      else if s = ''M0'' then Some (demo_messages ! 0)
      else if s = ''M1'' then Some (demo_messages ! 1)
      else if s = ''M2'' then Some (demo_messages ! 2)
      else None)"

definition demo_run ::
  "string list \<Rightarrow> (string \<rightharpoonup> string) \<Rightarrow> filesys \<Rightarrow> proc_result \<times> filesys" where
  "demo_run argv env fs =
     (if argv = [''cargo'', ''metadata'', ''--no-deps'', ''--format-version'', ''1'']
      then (Exited 0 ''META'', fs)
      else if argv = [''cargo'', ''build'', ''--release'', ''--message-format'', ''json'']
      then (Exited 0 ''M0\<newline>M1\<newline>M2\<newline>'', fs)
      else (Exited 0 [], fs))"

definition demo_ext :: externals where
  "demo_ext =
     \<lparr>run_process = demo_run, decode_utf8 = Some, splitlines = lines_acc [],
      json_loads = demo_loads, json_dumps = (\<lambda>v. ''[]''), py_repr = (\<lambda>v. ''None''),
      http_get = (\<lambda>url. Some \<lparr>status_code = 404, body_json = None\<rparr>),
      urlopen_read = (\<lambda>url. Inl OSError), unzip = (\<lambda>bytes. None),
      zip_bytes = (\<lambda>fs root. ''PK''),
      path_new = (\<lambda>s. path_str (path_of s)),
      path_join = (\<lambda>p rel. path_str (joinpath (path_of p) rel)),
      path_resolve = (\<lambda>p. path_str (resolve (path_of p)))\<rparr>"

definition demo_environ :: "string \<rightharpoonup> string" where
  "demo_environ =
     [''PKG_CONFIG_PATH'' \<mapsto> ''C:/old/pkgconfig'', ''PATH'' \<mapsto> ''C:/Windows'',
      ''LIB'' \<mapsto> ''C:/sdk/lib'']"

definition demo_world :: world where
  "demo_world =
     \<lparr>files = demo_files, dicts = (\<lambda>r. if r = 0 then demo_environ else Map.empty),
      allocated = 0, events = []\<rparr>"


text \<open>The value a process got for the variable \<open>v\<close>.\<close>

definition passed_value :: "string \<Rightarrow> (string \<rightharpoonup> string) option \<Rightarrow> string option" where
  "passed_value v env = (case env of None \<Rightarrow> None | Some e \<Rightarrow> e v)"

text \<open>The same machine with no \<^verbatim>\<open>LIB\<close> in the environment.\<close>

definition demo_world_no_lib :: world where
  "demo_world_no_lib =
     \<lparr>files = demo_files, dicts = (\<lambda>r. [''PATH'' \<mapsto> ''C:/Windows'']),
      allocated = 0, events = []\<rparr>"


text \<open>The kinds of action the properties below select from a run.\<close>

fun is_fetch :: "event \<Rightarrow> bool" where
  "is_fetch (HttpGet url) = True"
| "is_fetch (UrlOpen url) = True"
| "is_fetch (ExtractAll target) = True"
| "is_fetch e = False"

fun is_download :: "event \<Rightarrow> bool" where
  "is_download (UrlOpen url) = True"
| "is_download (ExtractAll target) = True"
| "is_download e = False"




fun printed :: "event list \<Rightarrow> string list" where
  "printed [] = []"
| "printed (Print s # es) = s # printed es"
| "printed (e # es) = printed es"

text \<open>A computation none of whose actions, in any state, is of the kind \<open>P\<close>.\<close>

definition silent :: "(event \<Rightarrow> bool) \<Rightarrow> 'a io \<Rightarrow> bool" where
  "silent P m = (\<forall>w. \<exists>es. events (snd (m w)) = events w @ es \<and> filter P es = [])"


section \<open>The conditions of a download, as the specification words them\<close>

text \<open>
  The release listing is accepted: the response has status 200, its document has an
  \<^verbatim>\<open>assets\<close> array, exactly one asset has \<^verbatim>\<open>GTK4\<close> in its name, and that asset
  has the download address \<open>url\<close> and the content type \<^verbatim>\<open>application/zip\<close>.
\<close>

definition release_ok :: "externals \<Rightarrow> string \<Rightarrow> bool" where
  "release_ok ext url =
     (case http_get ext releases_url of
        None \<Rightarrow> False
      | Some response \<Rightarrow>
          status_code response = 200 \<and>
          (case body_json response of
             None \<Rightarrow> False
           | Some data \<Rightarrow>
               (case getitem_str data ''assets'' of
                  Inr (JArr assets) \<Rightarrow>
                    (case filter_gtk4 ext assets of
                       Inr [asset] \<Rightarrow>
                         getitem_str asset ''browser_download_url'' = Inr (JStr url)
                         \<and> getitem_str asset ''content_type'' = Inr (JStr ''application/zip'')
                     | _ \<Rightarrow> False)
                | _ \<Rightarrow> False)))"

text \<open>
  The download works: the cache directory can be created in \<open>fs\<close>, the address
  answers with an archive, and extracting all its members below the cache directory
  gives \<open>fs'\<close>.
\<close>

definition download_ok :: "externals \<Rightarrow> string \<Rightarrow> filesys \<Rightarrow> path \<Rightarrow> filesys \<Rightarrow> bool" where
  "download_ok ext url fs cache fs' =
     (case mkdir_parents fs cache of
        Inl e \<Rightarrow> False
      | Inr fs1 \<Rightarrow>
          (case urlopen_read ext url of
             Inl e \<Rightarrow> False
           | Inr bytes \<Rightarrow>
               (case unzip ext bytes of
                  None \<Rightarrow> False
                | Some members \<Rightarrow> extractall fs1 cache members = Inr fs')))"

text \<open>The same machine when the release listing offers one GTK4 archive.\<close>

definition demo_release :: json where
  "demo_release =
     JObj [(''assets'',
            JArr [JObj [(''name'', JStr ''GTK3_Gvsbuild_x64.zip''),
                        (''browser_download_url'', JStr ''https://example.org/GTK3.zip''),
                        (''content_type'', JStr ''application/zip'')],
                  JObj [(''name'', JStr ''GTK4_Gvsbuild_x64.zip''),
                        (''browser_download_url'', JStr ''https://example.org/GTK4.zip''),
                        (''content_type'', JStr ''application/zip'')]])]"

definition demo_archive :: "(path \<times> node) list" where
  "demo_archive =
     [([''bin''], Dir),
      ([''bin'', ''gtk-4.dll''], File ''gtk''),
      ([''bin'', ''gdbus.exe''], File ''gdbus''),
      ([''share'', ''glib-2.0'', ''schemas'', ''gschemas.compiled''], File ''schemas'')]"

definition demo_ext_online :: externals where
  "demo_ext_online =
     demo_ext
       \<lparr>http_get := (\<lambda>url. if url = releases_url
                           then Some \<lparr>status_code = 200, body_json = Some demo_release\<rparr>
                           else None),
        urlopen_read := (\<lambda>url. if url = ''https://example.org/GTK4.zip'' then Inr ''ZIP''
                               else Inl OSError),
        unzip := (\<lambda>bytes. if bytes = ''ZIP'' then Some demo_archive else None)\<rparr>"

text \<open>The same machine when the cache directory is there already.\<close>

definition demo_world_cached :: world where
  "demo_world_cached =
     demo_world\<lparr>files := demo_files @ [([''C:'', ''app'', ''target'', ''gtk-from-github''], Dir)]\<rparr>"

definition download_args :: args where
  "download_args = \<lparr>show_binary = False, show_zip = False, download_gtk = True\<rparr>"



section \<open>What the assembly does to the file system\<close>

text \<open>
  The file operations of lines 256 to 291, in their order, without the printing: the
  effect of assemble\_bundle on the file system (shown equal to it below).
\<close>

fun copy_all :: "filesys \<Rightarrow> path list \<Rightarrow> path \<Rightarrow> error + filesys" where
  "copy_all fs [] bundle_dir = Inr fs"
| "copy_all fs (dll # rest) bundle_dir =
     (case copy2 fs dll bundle_dir of
        Inl e \<Rightarrow> Inl e
      | Inr fs' \<Rightarrow> copy_all fs' rest bundle_dir)"

definition settings_text :: string where
  "settings_text = ''[Settings]\<newline>gtk-font-name=Segoe UI 10\<newline>''"

definition assemble_files :: "path \<Rightarrow> path \<Rightarrow> filesys \<Rightarrow> error + filesys" where
  "assemble_files gtk_bin_dir bundle_dir fs =
     bind_err (mkdir_parents fs bundle_dir) (\<lambda>fs1.
     bind_err (copy_all fs1 (glob_dll fs1 gtk_bin_dir) bundle_dir) (\<lambda>fs2.
     bind_err (copy2 fs2 (joinpath gtk_bin_dir ''gdbus.exe'') bundle_dir) (\<lambda>fs3.
     bind_err (mkdir_parents fs3 (joinpath bundle_dir ''./share/glib-2.0/schemas'')) (\<lambda>fs4.
     bind_err (copy2 fs4
                 (resolve (joinpath gtk_bin_dir ''../share/glib-2.0/schemas/gschemas.compiled''))
                 (joinpath bundle_dir ''./share/glib-2.0/schemas'')) (\<lambda>fs5.
     bind_err (mkdir_parents fs5
                 (path_parent (joinpath bundle_dir ''./share/gtk-4.0/settings.ini''))) (\<lambda>fs6.
     bind_err (write_file fs6 (joinpath bundle_dir ''./share/gtk-4.0/settings.ini'') []) (\<lambda>fs7.
     bind_err (append_file fs7 (joinpath bundle_dir ''./share/gtk-4.0/settings.ini'')
                 ''[Settings]\<newline>'') (\<lambda>fs8.
     append_file fs8 (joinpath bundle_dir ''./share/gtk-4.0/settings.ini'')
       ''gtk-font-name=Segoe UI 10\<newline>''))))))))"

text \<open>Every directory on the way from \<open>pre\<close> down to \<open>pre @ cs\<close> is there.\<close>

fun all_dirs :: "filesys \<Rightarrow> path \<Rightarrow> path \<Rightarrow> bool" where
  "all_dirs fs pre [] = True"
| "all_dirs fs pre (c # cs) = (map_of fs (pre @ [c]) = Some Dir \<and> all_dirs fs (pre @ [c]) cs)"

text \<open>What a computation does to the file system, as a function of the file system alone.\<close>

definition files_effect :: "unit io \<Rightarrow> (filesys \<Rightarrow> error + filesys) \<Rightarrow> bool" where
  "files_effect m f =
     (\<forall>w. case f (files w) of
            Inl e \<Rightarrow> fst (m w) = Inl e
          | Inr fs' \<Rightarrow> fst (m w) = Inr () \<and> files (snd (m w)) = fs'
                       \<and> dicts (snd (m w)) = dicts w \<and> allocated (snd (m w)) = allocated w)"


text \<open>Every directory of \<open>fs\<close> is a directory of \<open>fs'\<close>.\<close>

definition keeps_dirs :: "filesys \<Rightarrow> filesys \<Rightarrow> bool" where
  "keeps_dirs fs fs' = (\<forall>k. map_of fs k = Some Dir \<longrightarrow> map_of fs' k = Some Dir)"

text \<open>
  The file \<open>src\<close> and the file of its name in the directory \<open>dir\<close> are two files with
  the same content: the state a copy leaves behind.
\<close>

definition copied :: "filesys \<Rightarrow> path \<Rightarrow> path \<Rightarrow> bool" where
  "copied fs src dir =
     (case map_of fs src of
        Some (File content) \<Rightarrow>
          map_of fs (dir @ [path_name src]) = Some (File content) \<and> src \<noteq> dir @ [path_name src]
      | _ \<Rightarrow> False)"


section \<open>Properties of get\_cargo\_metadata\<close>

lemma check_cargo_metadata_well_formed:
  assumes "map_of kvs ''target_directory'' = Some (JStr dir)"
    and "map_of kvs ''packages'' = Some (JArr [JObj pkg])"
    and "map_of pkg ''name'' = Some (JStr name)"
  shows "check_cargo_metadata (JObj kvs) = Inr \<lparr>target_directory = dir, package_name = name\<rparr>"
  using assms by (simp add: check_cargo_metadata_def bind_err_def)

lemma check_cargo_metadata_wrong_length:
  assumes "map_of kvs ''target_directory'' = Some (JStr dir)"
    and "map_of kvs ''packages'' = Some (JArr pkgs)"
    and "length pkgs \<noteq> 1"
  shows "\<exists>msg. check_cargo_metadata (JObj kvs) = Inl (ValueError msg)"
  using assms by (cases pkgs) (simp_all add: check_cargo_metadata_def bind_err_def)

text \<open>
  C2. The checks of get\_cargo\_metadata read \<^verbatim>\<open>metadata["target_directory"]\<close>,
  \<^verbatim>\<open>metadata["packages"]\<close> and \<^verbatim>\<open>["name"]\<close> by subscript and compare with
  \<^verbatim>\<open>None\<close>. On a document that lacks \<^verbatim>\<open>target_directory\<close>, one that lacks
  \<^verbatim>\<open>packages\<close>, and one whose single package lacks \<^verbatim>\<open>name\<close>, the result is the
  KeyError of the subscript, not the ValueError whose message says that the property is
  not defined.
\<close>

theorem check_cargo_metadata_missing_property:
  "check_cargo_metadata (JObj []) = Inl KeyError
   \<and> check_cargo_metadata (JObj [(''target_directory'', JStr ''C:/app/target'')]) = Inl KeyError
   \<and> check_cargo_metadata
        (JObj [(''target_directory'', JStr ''C:/app/target''), (''packages'', JArr [JObj []])])
       = Inl KeyError"
  by (simp add: check_cargo_metadata_def bind_err_def)




section \<open>Properties of build\_rust\_binary\<close>

lemmas io_defs = ret_def raise_def bind_io_def then_io_def lift_err_def try_except_def emit_def
  py_print_def py_exit_def fs_apply_def fs_read_def

lemmas demo_defs = demo_world_def demo_environ_def demo_ext_def demo_run_def demo_loads_def
  demo_messages_def demo_metadata_def demo_files_def demo_gtk_bin_def

lemma new_events_append: "events w' = events w @ es \<Longrightarrow> new_events w w' = es"
  by (simp add: new_events_def)

lemma prepare_env_ok:
  assumes "dicts w environ_ref ''PATH'' = Some old_path"
    and "dicts w environ_ref ''LIB'' = Some old_lib"
  shows "prepare_env ext gtk w =
           (Inr (Suc (allocated w)),
            w\<lparr>dicts := (dicts w)(Suc (allocated w) :=
                (dicts w environ_ref)
                  (''PKG_CONFIG_PATH'' \<mapsto>
                     path_resolve ext (path_join ext (path_new ext gtk) ''../lib/pkgconfig''),
                   ''PATH'' \<mapsto> old_path @ '';'' @ path_resolve ext (path_new ext gtk),
                   ''LIB'' \<mapsto>
                     old_lib @ '';'' @ path_resolve ext (path_join ext (path_new ext gtk) ''../lib''))),
              allocated := Suc (allocated w)\<rparr>)"
  using assms
  by (simp add: prepare_env_def io_defs dict_copy_def dict_get_def dict_set_def environ_ref_def
        Let_def)

lemma prepare_env_missing:
  assumes "dicts w environ_ref ''PATH'' = None \<or> dicts w environ_ref ''LIB'' = None"
  shows "fst (prepare_env ext gtk w) = Inl KeyError
         \<and> events (snd (prepare_env ext gtk w)) = events w"
  using assms
  by (auto simp add: prepare_env_def io_defs dict_copy_def dict_get_def dict_set_def
        environ_ref_def Let_def split: option.splits)

lemma prepare_env_environ:
  "dicts (snd (prepare_env ext gtk w)) environ_ref = dicts w environ_ref"
  by (auto simp add: prepare_env_def io_defs dict_copy_def dict_get_def dict_set_def
        environ_ref_def Let_def split: option.splits)

lemma subprocess_run_dicts:
  "dicts (snd (subprocess_run ext argv env_ref check w)) = dicts w"
  by (auto simp add: subprocess_run_def Let_def split: prod.splits proc_result.splits)

lemma subprocess_run_events:
  "events (snd (subprocess_run ext argv env_ref check w))
     = events w @ [Run argv (map_option (dicts w) env_ref)]"
  by (auto simp add: subprocess_run_def Let_def split: prod.splits proc_result.splits)

text \<open>The build, and its repetition after a failure, get the same environment.\<close>

lemma run_build_effects:
  "dicts (snd (run_build ext my_env w)) = dicts w
   \<and> (\<exists>es. events (snd (run_build ext my_env w)) = events w @ es
            \<and> set (run_envs es) = {Some (dicts w my_env)})"
proof -
  let ?A = "[''cargo'', ''build'', ''--release'', ''--message-format'', ''json'']"
  let ?B = "[''cargo'', ''build'', ''--release'']"
  obtain r w1 where first: "subprocess_run ext ?A (Some my_env) True w = (r, w1)"
    by (cases "subprocess_run ext ?A (Some my_env) True w")
  have d1: "dicts w1 = dicts w"
    using subprocess_run_dicts [of ext ?A "Some my_env" True w] first by simp
  have e1: "events w1 = events w @ [Run ?A (Some (dicts w my_env))]"
    using subprocess_run_events [of ext ?A "Some my_env" True w] first by simp
  show ?thesis
  proof (cases r)
    case (Inr out)
    with first d1 e1 show ?thesis by (simp add: run_build_def io_defs)
  next
    case (Inl e)
    let ?P = "Print ''Re-running cargo build without capturing stdout to see all errors:\<newline>''"
    let ?w2 = "w1\<lparr>events := events w1 @ [?P]\<rparr>"
    obtain r' w3 where second: "subprocess_run ext ?B (Some my_env) False ?w2 = (r', w3)"
      by (cases "subprocess_run ext ?B (Some my_env) False ?w2")
    have d3: "dicts w3 = dicts w"
      using subprocess_run_dicts [of ext ?B "Some my_env" False ?w2] second d1 by simp
    have e3: "events w3 = events w @ [Run ?A (Some (dicts w my_env)), ?P, Run ?B (Some (dicts w my_env))]"
      using subprocess_run_events [of ext ?B "Some my_env" False ?w2] second d1 e1 by simp
    from Inl first second d3 e3 show ?thesis
      by (cases r') (simp_all add: run_build_def io_defs)
  qed
qed

text \<open>
  C1 (as amended). When the parent environment defines \<^verbatim>\<open>PATH\<close> and \<^verbatim>\<open>LIB\<close>, every
  process build\_rust\_binary starts gets the parent environment with \<^verbatim>\<open>PATH\<close> and
  \<^verbatim>\<open>LIB\<close> extended by \<^verbatim>\<open>;\<close> and a toolkit directory (the resolved toolkit
  directory, and the resolved \<^verbatim>\<open>../lib\<close> beside it), and with \<^verbatim>\<open>PKG_CONFIG_PATH\<close>
  set to the resolved \<^verbatim>\<open>../lib/pkgconfig\<close> of the toolkit, whatever its value in the
  parent was. The directories are what \<^verbatim>\<open>pathlib\<close> returns for them.
\<close>

theorem build_rust_binary_child_env:
  assumes "dicts w environ_ref ''PATH'' = Some old_path"
    and "dicts w environ_ref ''LIB'' = Some old_lib"
  shows "set (run_envs (new_events w (snd (build_rust_binary ext gtk_bin_dir w)))) =
           {Some ((dicts w environ_ref)
              (''PKG_CONFIG_PATH'' \<mapsto>
                 path_resolve ext (path_join ext (path_new ext gtk_bin_dir) ''../lib/pkgconfig''),
               ''PATH'' \<mapsto> old_path @ '';'' @ path_resolve ext (path_new ext gtk_bin_dir),
               ''LIB'' \<mapsto>
                 old_lib @ '';'' @
                 path_resolve ext (path_join ext (path_new ext gtk_bin_dir) ''../lib'')))}"
proof -
  let ?my_env = "Suc (allocated w)"
  let ?env = "(dicts w environ_ref)
              (''PKG_CONFIG_PATH'' \<mapsto>
                 path_resolve ext (path_join ext (path_new ext gtk_bin_dir) ''../lib/pkgconfig''),
               ''PATH'' \<mapsto> old_path @ '';'' @ path_resolve ext (path_new ext gtk_bin_dir),
               ''LIB'' \<mapsto>
                 old_lib @ '';'' @
                 path_resolve ext (path_join ext (path_new ext gtk_bin_dir) ''../lib''))"
  let ?w1 = "w\<lparr>dicts := (dicts w)(?my_env := ?env), allocated := ?my_env\<rparr>"
  have p: "prepare_env ext gtk_bin_dir w = (Inr ?my_env, ?w1)"
    using prepare_env_ok [OF assms] by simp
  obtain r w2 where b: "run_build ext ?my_env ?w1 = (r, w2)"
    by (cases "run_build ext ?my_env ?w1")
  from run_build_effects [of ext ?my_env ?w1] b
  obtain es where es: "events w2 = events w @ es" "set (run_envs es) = {Some ?env}"
    by auto
  have "events (snd (build_rust_binary ext gtk_bin_dir w)) = events w2"
    using p b by (cases r) (simp_all add: build_rust_binary_def io_defs)
  with es show ?thesis by (simp add: new_events_append)
qed

theorem build_rust_binary_child_env_witness:
  "set (run_envs (new_events demo_world
         (snd (build_rust_binary demo_ext ''C:/gtk-build/gtk/x64/release/bin'' demo_world)))) =
     {Some [''PKG_CONFIG_PATH'' \<mapsto> path_str [''C:'', ''gtk-build'', ''gtk'', ''x64'', ''release'', ''lib'', ''pkgconfig''],
            ''PATH'' \<mapsto> ''C:/Windows;'' @ path_str [''C:'', ''gtk-build'', ''gtk'', ''x64'', ''release'', ''bin''],
            ''LIB'' \<mapsto> ''C:/sdk/lib;'' @ path_str [''C:'', ''gtk-build'', ''gtk'', ''x64'', ''release'', ''lib'']]}"
  using build_rust_binary_child_env [of demo_world "''C:/Windows''" "''C:/sdk/lib''" demo_ext
      "''C:/gtk-build/gtk/x64/release/bin''"]
  by (simp add: demo_defs environ_ref_def path_of_def joinpath_def resolve_def is_sep_def
        path_str_def)


lemmas build_defs = build_rust_binary_def prepare_env_def Let_def run_build_def find_binary_def
  subprocess_run_def dict_copy_def dict_get_def dict_set_def environ_ref_def bind_err_def
  path_of_def joinpath_def resolve_def is_sep_def new_events_def passed_value_def

theorem build_rust_binary_replaces_pkg_config_path:
  "dicts demo_world environ_ref ''PKG_CONFIG_PATH'' = Some ''C:/old/pkgconfig''
   \<and> map (passed_value ''PKG_CONFIG_PATH'')
         (run_envs (new_events demo_world
            (snd (build_rust_binary demo_ext ''C:/gtk-build/gtk/x64/release/bin'' demo_world))))
       = [Some (path_str [''C:'', ''gtk-build'', ''gtk'', ''x64'', ''release'', ''lib'', ''pkgconfig''])]
   \<and> \<not> prefix ''C:/old/pkgconfig''
         (path_str [''C:'', ''gtk-build'', ''gtk'', ''x64'', ''release'', ''lib'', ''pkgconfig''])"
  by (simp add: build_defs io_defs demo_defs path_str_def)

text \<open>
  C3. Once the build has run and its output has been read into the list of retained
  artifacts, build\_rust\_binary returns the artifact when the list has exactly one
  element, and fails with AssertionError for every other length.
\<close>

theorem build_rust_binary_artifact_count:
  assumes "prepare_env ext gtk_bin_dir w = (Inr my_env, w1)"
    and "run_build ext my_env w1 = (Inr out, w2)"
    and "decode_utf8 ext out = Some text"
    and "collect_binaries ext (splitlines ext text) [] = Inr binaries"
  shows "build_rust_binary ext gtk_bin_dir w =
           (if length binaries = 1 then Inr (hd binaries) else Inl AssertionError, w2)"
  using assms
  by (cases binaries) (simp_all add: build_rust_binary_def find_binary_def io_defs bind_err_def)

theorem build_rust_binary_artifact_count_witness:
  "build_rust_binary demo_ext ''C:/gtk-build/gtk/x64/release/bin'' demo_world =
     (Inr ''C:/app/target/release/app.exe'',
      snd (run_build demo_ext (Suc 0)
             (snd (prepare_env demo_ext ''C:/gtk-build/gtk/x64/release/bin'' demo_world))))"
proof -
  let ?gtk = "''C:/gtk-build/gtk/x64/release/bin''"
  let ?w1 = "snd (prepare_env demo_ext ?gtk demo_world)"
  let ?w2 = "snd (run_build demo_ext (Suc 0) ?w1)"
  have p: "prepare_env demo_ext ?gtk demo_world = (Inr (Suc 0), ?w1)"
    by (simp add: build_defs io_defs demo_defs)
  have b: "run_build demo_ext (Suc 0) ?w1 = (Inr ''M0\<newline>M1\<newline>M2\<newline>'', ?w2)"
    by (simp add: build_defs io_defs demo_defs)
  have d: "decode_utf8 demo_ext ''M0\<newline>M1\<newline>M2\<newline>'' = Some ''M0\<newline>M1\<newline>M2\<newline>''"
    by (simp add: demo_defs)
  have c: "collect_binaries demo_ext (splitlines demo_ext ''M0\<newline>M1\<newline>M2\<newline>'') []
             = Inr [''C:/app/target/release/app.exe'']"
    by (simp add: demo_defs)
  from build_rust_binary_artifact_count [OF p b d c] show ?thesis by simp
qed

lemma collect_binaries_acc:
  assumes "map (json_loads ext) lines = map Some msgs"
    and "\<forall>msg \<in> set msgs. cargo_message msg"
  shows "collect_binaries ext lines acc = Inr (acc @ map executable_of (filter retained msgs))"
  using assms
proof (induction lines arbitrary: msgs acc)
  case Nil
  then show ?case by simp
next
  case (Cons line rest)
  then obtain msg msgs' where m: "msgs = msg # msgs'" "json_loads ext line = Some msg"
      "map (json_loads ext) rest = map Some msgs'"
    by (cases msgs) auto
  with Cons.prems have cm: "cargo_message msg" and rest: "\<forall>x \<in> set msgs'. cargo_message x"
    by simp_all
  note ih = Cons.IH [OF m(3) rest]
  from cm obtain reason where r: "getitem_str msg ''reason'' = Inr reason"
    by (auto simp: cargo_message_def split: sum.splits)
  show ?case
  proof (cases "reason = JStr ''compiler-artifact''")
    case False
    with m r ih show ?thesis by (simp add: retained_def)
  next
    case True
    with cm r obtain exe where e: "getitem_str msg ''executable'' = Inr exe"
      by (auto simp: cargo_message_def split: sum.splits)
    with True m r ih show ?thesis
      by (cases exe) (simp_all add: retained_def executable_of_def)
  qed
qed

text \<open>
  C6. For the messages of the build tool, one per line, the loop of build\_rust\_binary
  ends with exactly the executables of the messages whose \<^verbatim>\<open>reason\<close> is
  \<^verbatim>\<open>compiler-artifact\<close> and whose \<^verbatim>\<open>executable\<close> is a non-empty string, in their
  order; every other message adds nothing.
\<close>

theorem collect_binaries_retains:
  assumes "map (json_loads ext) lines = map Some msgs"
    and "\<forall>msg \<in> set msgs. cargo_message msg"
  shows "collect_binaries ext lines [] = Inr (map executable_of (filter retained msgs))"
  using collect_binaries_acc [OF assms, of "[]"] by simp

theorem collect_binaries_retains_witness:
  "collect_binaries demo_ext [''M0'', ''M1'', ''M2''] [] = Inr [''C:/app/target/release/app.exe'']"
  using collect_binaries_retains [of demo_ext "[''M0'', ''M1'', ''M2'']" demo_messages]
  by (simp add: demo_defs cargo_message_def retained_def executable_of_def)

lemma run_build_dicts: "dicts (snd (run_build ext my_env w)) = dicts w"
  using run_build_effects [of ext my_env w] by simp

text \<open>
  C9. Whatever build\_rust\_binary does and however it ends, the dictionary object
  \<^verbatim>\<open>os.environ\<close> holds the same items after the call as before it: the assignments
  go to the copy.
\<close>

theorem build_rust_binary_keeps_environ:
  "dicts (snd (build_rust_binary ext gtk_bin_dir w)) environ_ref = dicts w environ_ref"
proof -
  obtain r w1 where p: "prepare_env ext gtk_bin_dir w = (r, w1)"
    by (cases "prepare_env ext gtk_bin_dir w")
  have d1: "dicts w1 environ_ref = dicts w environ_ref"
    using prepare_env_environ [of ext gtk_bin_dir w] p by simp
  show ?thesis
  proof (cases r)
    case (Inl e)
    with p d1 show ?thesis by (simp add: build_rust_binary_def io_defs)
  next
    case (Inr my_env)
    obtain r' w2 where b: "run_build ext my_env w1 = (r', w2)"
      by (cases "run_build ext my_env w1")
    have "dicts w2 = dicts w1"
      using run_build_dicts [of ext my_env w1] b by simp
    with Inr p b d1 show ?thesis
      by (cases r') (simp_all add: build_rust_binary_def io_defs)
  qed
qed

text \<open>
  C10. When \<^verbatim>\<open>PATH\<close> or \<^verbatim>\<open>LIB\<close> is not defined in the parent environment,
  build\_rust\_binary ends with KeyError and has started no process (it has done
  nothing observable at all).
\<close>

theorem build_rust_binary_needs_path_and_lib:
  assumes "dicts w environ_ref ''PATH'' = None \<or> dicts w environ_ref ''LIB'' = None"
  shows "fst (build_rust_binary ext gtk_bin_dir w) = Inl KeyError
         \<and> new_events w (snd (build_rust_binary ext gtk_bin_dir w)) = []"
proof -
  obtain r w1 where p: "prepare_env ext gtk_bin_dir w = (r, w1)"
    by (cases "prepare_env ext gtk_bin_dir w")
  with prepare_env_missing [OF assms, of ext gtk_bin_dir]
  have "r = Inl KeyError" and "events w1 = events w" by simp_all
  with p show ?thesis by (simp add: build_rust_binary_def io_defs new_events_def)
qed

theorem build_rust_binary_needs_path_and_lib_witness:
  "dicts demo_world_no_lib environ_ref ''LIB'' = None
   \<and> fst (build_rust_binary demo_ext ''C:/gtk-build/gtk/x64/release/bin'' demo_world_no_lib)
       = Inl KeyError
   \<and> new_events demo_world_no_lib
       (snd (build_rust_binary demo_ext ''C:/gtk-build/gtk/x64/release/bin'' demo_world_no_lib)) = []"
  using build_rust_binary_needs_path_and_lib
    [of demo_world_no_lib demo_ext "''C:/gtk-build/gtk/x64/release/bin''"]
  by (simp add: demo_world_no_lib_def)




section \<open>Which actions a part of the script can take\<close>

lemma silentI: "(\<And>w. \<exists>es. events (snd (m w)) = events w @ es \<and> filter P es = []) \<Longrightarrow> silent P m"
  by (simp add: silent_def)

lemma silentD: "silent P m \<Longrightarrow> \<exists>es. events (snd (m w)) = events w @ es \<and> filter P es = []"
  by (simp add: silent_def)

lemma silent_ret: "silent P (ret x)"
  by (simp add: silent_def ret_def)

lemma silent_raise: "silent P (raise e)"
  by (simp add: silent_def raise_def)

lemma silent_py_exit: "silent P (py_exit n)"
  by (simp add: py_exit_def silent_raise)

lemma silent_lift_err: "silent P (lift_err r)"
  by (simp add: silent_def lift_err_def)

lemma silent_fs_read: "silent P (fs_read f)"
  by (simp add: silent_def fs_read_def)

lemma silent_fs_apply: "silent P (fs_apply f)"
  by (auto simp add: silent_def fs_apply_def split: sum.splits)

lemma silent_emit: "\<not> P e \<Longrightarrow> silent P (emit e)"
  by (simp add: silent_def emit_def)

lemma silent_bind:
  assumes "silent P m" and "\<And>x. silent P (f x)"
  shows "silent P (bind_io m f)"
proof (rule silentI)
  fix w
  obtain r w1 where m: "m w = (r, w1)" by (cases "m w")
  from silentD [OF assms(1), of w] m obtain es where
    es: "events w1 = events w @ es" "filter P es = []"
    by auto
  show "\<exists>es. events (snd (bind_io m f w)) = events w @ es \<and> filter P es = []"
  proof (cases r)
    case (Inl e)
    with m es show ?thesis by (simp add: bind_io_def)
  next
    case (Inr x)
    from silentD [OF assms(2), of x w1] obtain es' where
      es': "events (snd (f x w1)) = events w1 @ es'" "filter P es' = []"
      by auto
    with Inr m es show ?thesis by (simp add: bind_io_def)
  qed
qed

lemma silent_then: "silent P m \<Longrightarrow> silent P n \<Longrightarrow> silent P (then_io m n)"
  by (simp add: then_io_def silent_bind)

lemma silent_try_except:
  assumes "silent P m" and "\<And>e. silent P (h e)"
  shows "silent P (try_except m h)"
proof (rule silentI)
  fix w
  obtain r w1 where m: "m w = (r, w1)" by (cases "m w")
  from silentD [OF assms(1), of w] m obtain es where
    es: "events w1 = events w @ es" "filter P es = []"
    by auto
  show "\<exists>es. events (snd (try_except m h w)) = events w @ es \<and> filter P es = []"
  proof (cases r)
    case (Inr x)
    with m es show ?thesis by (simp add: try_except_def)
  next
    case (Inl e)
    from silentD [OF assms(2), of e w1] obtain es' where
      es': "events (snd (h e w1)) = events w1 @ es'" "filter P es' = []"
      by auto
    with Inl m es show ?thesis by (simp add: try_except_def)
  qed
qed

lemma silent_seq_io: "(\<And>m. m \<in> set ms \<Longrightarrow> silent P m) \<Longrightarrow> silent P (seq_io ms)"
  by (induction ms) (simp_all add: silent_ret silent_then)

lemma silent_subprocess_run:
  "(\<And>env. \<not> P (Run argv env)) \<Longrightarrow> silent P (subprocess_run ext argv env_ref check)"
  by (rule silentI) (simp add: subprocess_run_events)

lemma silent_print: "(\<And>s. \<not> P (Print s)) \<Longrightarrow> silent P (py_print s)"
  by (simp add: py_print_def silent_emit)

lemma silent_copy_dlls: "(\<And>s. \<not> P (Print s)) \<Longrightarrow> silent P (copy_dlls dlls bundle_dir)"
  by (induction dlls) (simp_all add: silent_ret silent_then silent_fs_apply silent_print)

lemma silent_if: "silent P m \<Longrightarrow> silent P n \<Longrightarrow> silent P (if b then m else n)"
  by simp

lemmas silent_intros = silent_ret silent_raise silent_py_exit silent_lift_err silent_fs_read
  silent_fs_apply silent_bind silent_then silent_try_except silent_subprocess_run silent_copy_dlls
  silent_print silent_seq_io silent_emit silent_if

lemma silent_get_cargo_metadata:
  assumes "\<And>argv env. \<not> P (Run (''cargo'' # argv) env)"
  shows "silent P (get_cargo_metadata ext)"
  unfolding get_cargo_metadata_def
  by (intro silent_intros assms)

lemma silent_prepare_env: "silent P (prepare_env ext gtk)"
  by (rule silentI)
     (simp add: prepare_env_def Let_def bind_io_def then_io_def ret_def dict_copy_def
        dict_set_def dict_get_def split: option.splits)

lemma silent_build_rust_binary:
  assumes "\<And>argv env. \<not> P (Run (''cargo'' # argv) env)" and "\<And>s. \<not> P (Print s)"
  shows "silent P (build_rust_binary ext gtk)"
  unfolding build_rust_binary_def run_build_def
  by (intro silent_intros silent_prepare_env assms)

lemma silent_require_gtk:
  assumes "\<And>s. \<not> P (Print s)"
  shows "silent P (require_gtk gtk)"
  unfolding require_gtk_def
  by (intro silent_intros assms)

lemma silent_write_settings: "silent P (write_settings p)"
  unfolding write_settings_def by (intro silent_intros)

lemma silent_assemble_bundle:
  assumes "\<And>s. \<not> P (Print s)"
  shows "silent P (assemble_bundle gtk bundle_dir)"
  unfolding assemble_bundle_def create_bundle_dir_def copy_dll_files_def copy_gdbus_def
    copy_schemas_def create_settings_def Let_def
  by (intro silent_seq_io silent_bind silent_then)
     (auto intro!: silent_intros silent_write_settings assms)

lemma silent_build_and_copy:
  assumes "\<And>argv env. \<not> P (Run (''cargo'' # argv) env)" and "\<And>s. \<not> P (Print s)"
  shows "silent P (build_and_copy ext gtk bundle_dir)"
  unfolding build_and_copy_def Let_def
  by (intro silent_intros silent_build_rust_binary assms)

lemma silent_archive_and_reveal:
  assumes "\<And>s. \<not> P (Print s)" and "\<And>argv env. \<not> P (Run (''explorer'' # argv) env)"
    and "\<And>base root. \<not> P (MakeArchive base root)"
  shows "silent P (archive_and_reveal ext a rust_bin_to bundle_dir)"
  unfolding archive_and_reveal_def show_file_in_explorer_def make_archive_def
  by (intro silent_intros assms)

lemma silent_download_gtk_release:
  assumes "\<And>s. \<not> P (Print s)" and "\<And>url. \<not> P (HttpGet url)" and "\<And>url. \<not> P (UrlOpen url)"
    and "\<And>target. \<not> P (ExtractAll target)"
  shows "silent P (download_gtk_release ext gtk_bin_dir)"
  unfolding download_gtk_release_def fetch_asset_def download_and_extract_def
  by (intro silent_intros assms)


lemma silent_finish_bundle_fetch: "silent is_fetch (finish_bundle ext a cargo_meta gtk)"
  unfolding finish_bundle_def Let_def
  by (intro silent_intros silent_require_gtk silent_assemble_bundle silent_build_and_copy
        silent_archive_and_reveal) simp_all




section \<open>Properties of the download\<close>

lemma get_cargo_metadata_events:
  assumes "get_cargo_metadata ext w = (r, w1)"
  shows "events w1 =
           events w @ [Run [''cargo'', ''metadata'', ''--no-deps'', ''--format-version'', ''1''] None]"
proof -
  let ?argv = "[''cargo'', ''metadata'', ''--no-deps'', ''--format-version'', ''1'']"
  obtain r0 w0 where s: "subprocess_run ext ?argv None True w = (r0, w0)"
    by (cases "subprocess_run ext ?argv None True w")
  have "events w0 = events w @ [Run ?argv None]"
    using subprocess_run_events [of ext ?argv None True w] s by simp
  moreover have "w1 = w0"
    using assms s by (cases r0) (simp_all add: get_cargo_metadata_def io_defs)
  ultimately show ?thesis by simp
qed

lemma filter_gtk4_names:
  "filter_gtk4 ext assets = Inr matched \<Longrightarrow> asset \<in> set matched \<Longrightarrow>
     \<exists>name. getitem_str asset ''name'' = Inr name"
proof (induction assets arbitrary: matched)
  case Nil
  then show ?case by simp
next
  case (Cons x xs)
  then show ?case by (auto split: sum.splits if_splits)
qed

text \<open>The run up to the download, when \<^verbatim>\<open>--download-gtk\<close> is given.\<close>

lemma bundle_download_branch:
  assumes "download_gtk a"
    and "get_cargo_metadata ext (snd (py_print [] w)) = (Inr cargo_meta, w1)"
  shows "bundle ext a w =
           bind_io
             (then_io
                (if path_exists (files w1)
                      (joinpath (path_of (target_directory cargo_meta)) ''./gtk-from-github'')
                 then then_io
                        (py_print (''GTK release already downloaded at: '' @
                           path_str (joinpath (path_of (target_directory cargo_meta))
                                       ''./gtk-from-github'')))
                        (py_print [])
                 else download_gtk_release ext
                        (joinpath (path_of (target_directory cargo_meta)) ''./gtk-from-github''))
                (ret (joinpath (joinpath (path_of (target_directory cargo_meta))
                                  ''./gtk-from-github'') ''bin'')))
             (finish_bundle ext a cargo_meta)
             (w1\<lparr>events := events w1 @
                [Print ''Downloading latest GTK release by gvsbuild from https://github.com/wingtk/gvsbuild/releases'',
                 Print []]\<rparr>)"
  using assms
  by (simp add: bundle_def acquire_gtk_def io_defs Let_def)

lemma download_rejected:
  assumes "http_get ext releases_url = Some response"
    and "status_code response \<noteq> 200 \<or>
         (body_json response = Some data \<and> getitem_str data ''assets'' = Inr (JArr assets)
          \<and> filter_gtk4 ext assets = Inr matched
          \<and> (matched = [] \<or> 1 < length matched
              \<or> (\<exists>asset url ct. matched = [asset]
                    \<and> getitem_str asset ''browser_download_url'' = Inr url
                    \<and> getitem_str asset ''content_type'' = Inr ct
                    \<and> ct \<noteq> JStr ''application/zip'')))"
  shows "fst (download_gtk_release ext cache w) = Inl (SystemExit 1)
         \<and> filter is_download (new_events w (snd (download_gtk_release ext cache w))) = []
         \<and> (\<exists>msg \<in> set (printed (new_events w (snd (download_gtk_release ext cache w)))).
               prefix ''Could not download GTK release'' msg)"
proof (cases "status_code response \<noteq> 200")
  case True
  with assms(1) show ?thesis
    by (simp add: download_gtk_release_def io_defs new_events_def)
next
  case False
  with assms(2) have ok: "status_code response = 200" "body_json response = Some data"
      "getitem_str data ''assets'' = Inr (JArr assets)" "filter_gtk4 ext assets = Inr matched"
    and bad: "matched = [] \<or> 1 < length matched
              \<or> (\<exists>asset url ct. matched = [asset]
                    \<and> getitem_str asset ''browser_download_url'' = Inr url
                    \<and> getitem_str asset ''content_type'' = Inr ct
                    \<and> ct \<noteq> JStr ''application/zip'')"
    by auto
  from bad consider (none) "matched = []" | (many) "1 < length matched"
    | (single) asset url ct where "matched = [asset]"
        "getitem_str asset ''browser_download_url'' = Inr url"
        "getitem_str asset ''content_type'' = Inr ct" "ct \<noteq> JStr ''application/zip''"
    by auto
  then show ?thesis
  proof cases
    case none
    with assms(1) ok show ?thesis
      by (cases assets) (simp_all add: download_gtk_release_def io_defs bind_err_def new_events_def)
  next
    case many
    then have "assets \<noteq> []" using ok(4) by auto
    with many assms(1) ok show ?thesis
      by (simp add: download_gtk_release_def io_defs bind_err_def new_events_def)
  next
    case single
    then have "assets \<noteq> []" using ok(4) by auto
    moreover obtain name where "getitem_str asset ''name'' = Inr name"
      using filter_gtk4_names [OF ok(4), of asset] single(1) by auto
    ultimately show ?thesis
      using single assms(1) ok
      by (cases "url = JNull") (simp_all add: download_gtk_release_def fetch_asset_def io_defs bind_err_def new_events_def)
  qed
qed

text \<open>
  C4. With \<^verbatim>\<open>--download-gtk\<close>, once the metadata query has succeeded and the cache
  directory is not there, the script ends with \<^verbatim>\<open>exit(1)\<close>, having printed a line
  that starts with \<^verbatim>\<open>Could not download GTK release\<close> and having opened no download
  address and extracted nothing, in each of these cases: the status of the release
  listing is not 200; no asset has \<^verbatim>\<open>GTK4\<close> in its name; more than one has; the
  only one has a content type other than \<^verbatim>\<open>application/zip\<close>.
\<close>

theorem bundle_download_rejected:
  assumes "download_gtk a"
    and "get_cargo_metadata ext (snd (py_print [] w)) = (Inr cargo_meta, w1)"
    and "\<not> path_exists (files w1)
             (joinpath (path_of (target_directory cargo_meta)) ''./gtk-from-github'')"
    and "http_get ext releases_url = Some response"
    and "status_code response \<noteq> 200 \<or>
         (body_json response = Some data \<and> getitem_str data ''assets'' = Inr (JArr assets)
          \<and> filter_gtk4 ext assets = Inr matched
          \<and> (matched = [] \<or> 1 < length matched
              \<or> (\<exists>asset url ct. matched = [asset]
                    \<and> getitem_str asset ''browser_download_url'' = Inr url
                    \<and> getitem_str asset ''content_type'' = Inr ct
                    \<and> ct \<noteq> JStr ''application/zip'')))"
  shows "fst (bundle ext a w) = Inl (SystemExit 1)
         \<and> (\<exists>msg \<in> set (printed (new_events w (snd (bundle ext a w)))).
               prefix ''Could not download GTK release'' msg)
         \<and> filter is_download (new_events w (snd (bundle ext a w))) = []"
proof -
  let ?cache = "joinpath (path_of (target_directory cargo_meta)) ''./gtk-from-github''"
  let ?pre = "[Print [], Run [''cargo'', ''metadata'', ''--no-deps'', ''--format-version'', ''1''] None,
     Print ''Downloading latest GTK release by gvsbuild from https://github.com/wingtk/gvsbuild/releases'',
     Print []]"
  let ?w2 = "w1\<lparr>events := events w1 @
     [Print ''Downloading latest GTK release by gvsbuild from https://github.com/wingtk/gvsbuild/releases'',
      Print []]\<rparr>"
  have e1: "events w1 = events w @ [Print [], Run [''cargo'', ''metadata'', ''--no-deps'', ''--format-version'', ''1''] None]"
    using get_cargo_metadata_events [OF assms(2)] by (simp add: io_defs)
  let ?D = "download_gtk_release ext ?cache ?w2"
  from download_rejected [OF assms(4) assms(5), of ?cache ?w2] have
    d: "fst ?D = Inl (SystemExit 1)"
      "filter is_download (new_events ?w2 (snd ?D)) = []"
      "\<exists>msg \<in> set (printed (new_events ?w2 (snd ?D))). prefix ''Could not download GTK release'' msg"
    by blast+
  obtain es where es: "events (snd ?D) = events ?w2 @ es"
    using silentD [OF silent_download_gtk_release [of "\<lambda>e. False" ext ?cache], of ?w2] by auto
  have b: "bundle ext a w = (Inl (SystemExit 1), snd ?D)"
    using bundle_download_branch [OF assms(1) assms(2)] assms(3) d(1)
    by (cases ?D) (simp add: bind_io_def then_io_def)
  have n2: "new_events ?w2 (snd ?D) = es"
    using es by (simp add: new_events_def)
  have n: "new_events w (snd (bundle ext a w)) = ?pre @ es"
    using b e1 es by (simp add: new_events_def)
  have p: "printed (?pre @ es) =
             [[], ''Downloading latest GTK release by gvsbuild from https://github.com/wingtk/gvsbuild/releases'', []]
             @ printed es"
    by simp
  show ?thesis
    using b d(2) d(3) unfolding n p n2 by simp
qed

theorem bundle_download_rejected_witness:
  "fst (bundle demo_ext download_args demo_world) = Inl (SystemExit 1)
   \<and> ''Could not download GTK release, HTTP status code: 404''
        \<in> set (printed (new_events demo_world (snd (bundle demo_ext download_args demo_world))))
   \<and> filter is_download (new_events demo_world (snd (bundle demo_ext download_args demo_world))) = []"
proof -
  let ?w0 = "snd (py_print [] demo_world)"
  have m: "get_cargo_metadata demo_ext ?w0 =
             (Inr \<lparr>target_directory = ''C:/app/target'', package_name = ''app''\<rparr>,
              snd (get_cargo_metadata demo_ext ?w0))"
    by (simp add: get_cargo_metadata_def subprocess_run_def check_cargo_metadata_def
          bind_err_def io_defs demo_defs)
  have f: "files (snd (get_cargo_metadata demo_ext ?w0)) = demo_files"
    by (simp add: get_cargo_metadata_def subprocess_run_def check_cargo_metadata_def
          bind_err_def io_defs demo_defs)
  have c: "\<not> path_exists (files (snd (get_cargo_metadata demo_ext ?w0)))
             (joinpath (path_of (target_directory
                \<lparr>target_directory = ''C:/app/target'', package_name = ''app''\<rparr>)) ''./gtk-from-github'')"
    unfolding f by (simp add: path_exists_def demo_defs joinpath_def path_of_def is_sep_def)
  have h: "http_get demo_ext releases_url = Some \<lparr>status_code = 404, body_json = None\<rparr>"
    by (simp add: demo_defs)
  have s: "status_code \<lparr>status_code = 404, body_json = None\<rparr> \<noteq> 200 \<or>
         (body_json \<lparr>status_code = 404, body_json = None\<rparr> = Some JNull \<and> getitem_str JNull ''assets'' = Inr (JArr [])
          \<and> filter_gtk4 demo_ext [] = Inr []
          \<and> ([] = [] \<or> 1 < length ([]::json list)
              \<or> (\<exists>asset url ct. [] = [asset]
                    \<and> getitem_str asset ''browser_download_url'' = Inr url
                    \<and> getitem_str asset ''content_type'' = Inr ct
                    \<and> ct \<noteq> JStr ''application/zip'')))"
    by simp
  have d: "download_gtk download_args" by (simp add: download_args_def)
  have n: "new_events demo_world (snd (bundle demo_ext download_args demo_world)) =
      [Print [], Run [''cargo'', ''metadata'', ''--no-deps'', ''--format-version'', ''1''] None,
       Print ''Downloading latest GTK release by gvsbuild from https://github.com/wingtk/gvsbuild/releases'',
       Print [], HttpGet releases_url,
       Print ''Could not download GTK release, HTTP status code: 404'', Print []]"
    using bundle_download_branch [OF d m]
    by (simp add: f path_exists_def demo_defs joinpath_def path_of_def is_sep_def
          download_gtk_release_def io_defs new_events_def str_int_def
          get_cargo_metadata_def subprocess_run_def check_cargo_metadata_def bind_err_def)
  from bundle_download_rejected [OF d m c h s] show ?thesis
    unfolding n by simp
qed


lemma download_succeeds:
  assumes "release_ok ext url" and "download_ok ext url (files w) cache fs'"
  shows "fst (download_gtk_release ext cache w) = Inr ()
         \<and> filter is_fetch (new_events w (snd (download_gtk_release ext cache w)))
             = [HttpGet releases_url, UrlOpen url, ExtractAll cache]
         \<and> files (snd (download_gtk_release ext cache w)) = fs'"
proof -
  from assms(1) obtain response where r1: "http_get ext releases_url = Some response"
    and c1: "status_code response = 200"
    and k1: "(case body_json response of
             None \<Rightarrow> False
           | Some data \<Rightarrow>
               (case getitem_str data ''assets'' of
                  Inr (JArr assets) \<Rightarrow>
                    (case filter_gtk4 ext assets of
                       Inr [asset] \<Rightarrow>
                         getitem_str asset ''browser_download_url'' = Inr (JStr url)
                         \<and> getitem_str asset ''content_type'' = Inr (JStr ''application/zip'')
                     | _ \<Rightarrow> False)
                | _ \<Rightarrow> False))"
    by (cases "http_get ext releases_url") (simp_all add: release_ok_def)
  from k1 obtain data where r3: "body_json response = Some data"
    and k2: "(case getitem_str data ''assets'' of
                  Inr (JArr assets) \<Rightarrow>
                    (case filter_gtk4 ext assets of
                       Inr [asset] \<Rightarrow>
                         getitem_str asset ''browser_download_url'' = Inr (JStr url)
                         \<and> getitem_str asset ''content_type'' = Inr (JStr ''application/zip'')
                     | _ \<Rightarrow> False)
                | _ \<Rightarrow> False)"
    by (cases "body_json response") simp_all
  from k2 obtain v where v: "getitem_str data ''assets'' = Inr v"
    by (cases "getitem_str data ''assets''") simp_all
  with k2 obtain assets where r4: "getitem_str data ''assets'' = Inr (JArr assets)"
    and k3: "(case filter_gtk4 ext assets of
                       Inr [asset] \<Rightarrow>
                         getitem_str asset ''browser_download_url'' = Inr (JStr url)
                         \<and> getitem_str asset ''content_type'' = Inr (JStr ''application/zip'')
                     | _ \<Rightarrow> False)"
    by (cases v) simp_all
  from k3 obtain matched where m: "filter_gtk4 ext assets = Inr matched"
    by (cases "filter_gtk4 ext assets") simp_all
  with k3 obtain asset where r5: "filter_gtk4 ext assets = Inr [asset]"
    and r6: "getitem_str asset ''browser_download_url'' = Inr (JStr url)"
    and r7: "getitem_str asset ''content_type'' = Inr (JStr ''application/zip'')"
    by (cases matched; cases "tl matched") (auto split: list.splits)
  note r = r1 c1 r3 r4 r5 r6 r7
  from assms(2) obtain fs1 where d1: "mkdir_parents (files w) cache = Inr fs1"
    and j1: "(case urlopen_read ext url of
             Inl e \<Rightarrow> False
           | Inr bytes \<Rightarrow>
               (case unzip ext bytes of
                  None \<Rightarrow> False
                | Some members \<Rightarrow> extractall fs1 cache members = Inr fs'))"
    by (cases "mkdir_parents (files w) cache") (simp_all add: download_ok_def)
  from j1 obtain bytes where d2: "urlopen_read ext url = Inr bytes"
    and j2: "(case unzip ext bytes of
                  None \<Rightarrow> False
                | Some members \<Rightarrow> extractall fs1 cache members = Inr fs')"
    by (cases "urlopen_read ext url") simp_all
  from j2 obtain members where d3: "unzip ext bytes = Some members"
    and d4: "extractall fs1 cache members = Inr fs'"
    by (cases "unzip ext bytes") simp_all
  note d = d1 d2 d3 d4
  have ne: "assets \<noteq> []" using r(5) by auto
  obtain name where n: "getitem_str asset ''name'' = Inr name"
    using filter_gtk4_names [OF r(5), of asset] by auto
  show ?thesis
    using r d ne n
    by (simp add: download_gtk_release_def fetch_asset_def download_and_extract_def io_defs
          bind_err_def new_events_def)
qed

text \<open>
  C5 (as amended). With \<^verbatim>\<open>--download-gtk\<close> and a successful metadata query: when
  the cache directory is there, the whole run makes no request, opens no download
  address and extracts nothing; when it is not there, the release listing is accepted
  and the download works, the run makes the one request for the listing, opens the
  asset's address once and extracts the archive once, into the cache directory, and
  the file system after the acquisition is the one with every member extracted.
\<close>

theorem bundle_download_once:
  assumes "download_gtk a"
    and "get_cargo_metadata ext (snd (py_print [] w)) = (Inr cargo_meta, w1)"
    and "cache = joinpath (path_of (target_directory cargo_meta)) ''./gtk-from-github''"
  shows "(path_exists (files w1) cache \<longrightarrow>
            filter is_fetch (new_events w (snd (bundle ext a w))) = [])
         \<and> (\<not> path_exists (files w1) cache \<and> release_ok ext url
              \<and> download_ok ext url (files w1) cache fs' \<longrightarrow>
            filter is_fetch (new_events w (snd (bundle ext a w)))
              = [HttpGet releases_url, UrlOpen url, ExtractAll cache]
            \<and> files (snd (acquire_gtk ext a cargo_meta w1)) = fs')"
proof (intro conjI impI)
  let ?dl = "Print ''Downloading latest GTK release by gvsbuild from https://github.com/wingtk/gvsbuild/releases''"
  let ?pre = "[Print [], Run [''cargo'', ''metadata'', ''--no-deps'', ''--format-version'', ''1''] None,
     ?dl, Print []]"
  let ?w2 = "w1\<lparr>events := events w1 @ [?dl, Print []]\<rparr>"
  have e1: "events w1 = events w @ [Print [], Run [''cargo'', ''metadata'', ''--no-deps'', ''--format-version'', ''1''] None]"
    using get_cargo_metadata_events [OF assms(2)] by (simp add: io_defs)
  {
    assume ex: "path_exists (files w1) cache"
    let ?w3 = "w1\<lparr>events := events w1 @ [?dl, Print [],
                  Print (''GTK release already downloaded at: '' @ path_str cache), Print []]\<rparr>"
    have b: "bundle ext a w = finish_bundle ext a cargo_meta (joinpath cache ''bin'') ?w3"
      using bundle_download_branch [OF assms(1) assms(2)] ex assms(3)
      by (simp add: io_defs)
    obtain es where es: "events (snd (finish_bundle ext a cargo_meta (joinpath cache ''bin'') ?w3))
                           = events ?w3 @ es" "filter is_fetch es = []"
      using silentD [OF silent_finish_bundle_fetch, of ext a cargo_meta "joinpath cache ''bin''" ?w3]
      by auto
    show "filter is_fetch (new_events w (snd (bundle ext a w))) = []"
      using b es e1 by (simp add: new_events_def)
  }
  {
    assume h: "\<not> path_exists (files w1) cache \<and> release_ok ext url
                \<and> download_ok ext url (files w1) cache fs'"
    let ?D = "download_gtk_release ext cache ?w2"
    from h have ok: "release_ok ext url" "download_ok ext url (files ?w2) cache fs'" by simp_all
    from download_succeeds [OF ok] have
      d: "fst ?D = Inr ()"
         "filter is_fetch (new_events ?w2 (snd ?D)) = [HttpGet releases_url, UrlOpen url, ExtractAll cache]"
         "files (snd ?D) = fs'"
      by blast+
    obtain es1 where es1: "events (snd ?D) = events ?w2 @ es1"
      using silentD [OF silent_download_gtk_release [of "\<lambda>e. False" ext cache], of ?w2] by auto
    have n1: "new_events ?w2 (snd ?D) = es1" using es1 by (simp add: new_events_def)
    have b: "bundle ext a w = finish_bundle ext a cargo_meta (joinpath cache ''bin'') (snd ?D)"
      using bundle_download_branch [OF assms(1) assms(2)] h assms(3) d(1)
      by (cases ?D) (simp add: io_defs)
    obtain es2 where es2: "events (snd (finish_bundle ext a cargo_meta (joinpath cache ''bin'') (snd ?D)))
                           = events (snd ?D) @ es2" "filter is_fetch es2 = []"
      using silentD [OF silent_finish_bundle_fetch, of ext a cargo_meta "joinpath cache ''bin''" "snd ?D"]
      by auto
    show "filter is_fetch (new_events w (snd (bundle ext a w)))
              = [HttpGet releases_url, UrlOpen url, ExtractAll cache]"
      using b es1 es2 e1 d(2) unfolding n1 by (simp add: new_events_def)
    have "acquire_gtk ext a cargo_meta w1 = (Inr (joinpath cache ''bin''), snd ?D)"
      using assms(1) assms(3) h d(1)
      by (cases ?D) (simp add: acquire_gtk_def io_defs Let_def)
    then show "files (snd (acquire_gtk ext a cargo_meta w1)) = fs'"
      using d(3) by simp
  }
qed


lemmas demo_online_defs = demo_ext_online_def demo_release_def demo_archive_def
  demo_world_cached_def download_args_def

lemmas metadata_defs = get_cargo_metadata_def subprocess_run_def check_cargo_metadata_def
  bind_err_def

lemmas path_defs = path_exists_def is_dir_def joinpath_def path_of_def is_sep_def path_name_def
  path_parent_def resolve_def

theorem bundle_download_once_witness:
  "filter is_fetch
     (new_events demo_world_cached (snd (bundle demo_ext_online download_args demo_world_cached)))
     = []
   \<and> filter is_fetch (new_events demo_world (snd (bundle demo_ext_online download_args demo_world)))
     = [HttpGet releases_url, UrlOpen ''https://example.org/GTK4.zip'',
        ExtractAll [''C:'', ''app'', ''target'', ''gtk-from-github'']]"
proof -
  let ?meta = "\<lparr>target_directory = ''C:/app/target'', package_name = ''app''\<rparr>"
  let ?cache = "[''C:'', ''app'', ''target'', ''gtk-from-github'']"
  let ?url = "''https://example.org/GTK4.zip''"
  have d: "download_gtk download_args" by (simp add: download_args_def)
  have c: "?cache = joinpath (path_of (target_directory ?meta)) ''./gtk-from-github''"
    by (simp add: path_defs)
  let ?w0 = "snd (py_print [] demo_world_cached)"
  let ?w1 = "snd (get_cargo_metadata demo_ext_online ?w0)"
  have m1: "get_cargo_metadata demo_ext_online ?w0 = (Inr ?meta, ?w1)"
    by (simp add: metadata_defs io_defs demo_defs demo_online_defs)
  have f1: "files ?w1 = demo_files @ [(?cache, Dir)]"
    by (simp add: metadata_defs io_defs demo_defs demo_online_defs)
  have x1: "path_exists (files ?w1) ?cache"
    unfolding f1 by (simp add: path_exists_def demo_defs)
  let ?v0 = "snd (py_print [] demo_world)"
  let ?v1 = "snd (get_cargo_metadata demo_ext_online ?v0)"
  have m2: "get_cargo_metadata demo_ext_online ?v0 = (Inr ?meta, ?v1)"
    by (simp add: metadata_defs io_defs demo_defs demo_online_defs)
  have f2: "files ?v1 = demo_files"
    by (simp add: metadata_defs io_defs demo_defs demo_online_defs)
  have x2: "\<not> path_exists (files ?v1) ?cache"
    unfolding f2 by (simp add: path_exists_def demo_defs)
  have r: "release_ok demo_ext_online ?url"
    by (simp add: release_ok_def demo_defs demo_online_defs py_str_def releases_url_def)
  have "\<exists>fs'. download_ok demo_ext_online ?url (files ?v1) ?cache fs'"
    unfolding f2
    by (simp add: download_ok_def demo_defs demo_online_defs mkdir_parents_def write_file_def
          is_dir_def)
  then obtain fs' where o: "download_ok demo_ext_online ?url (files ?v1) ?cache fs'" ..
  from bundle_download_once [OF d m1 c, where url = ?url and fs' = fs'] x1
       bundle_download_once [OF d m2 c, where url = ?url and fs' = fs'] x2 r o
  show ?thesis by simp
qed

theorem bundle_download_not_attempted:
  "\<not> path_exists (files demo_world) [''C:'', ''app'', ''target'', ''gtk-from-github'']
   \<and> fst (bundle demo_ext download_args demo_world) = Inl (SystemExit 1)
   \<and> filter is_fetch (new_events demo_world (snd (bundle demo_ext download_args demo_world)))
       = [HttpGet releases_url]"
  by (simp add: bundle_def acquire_gtk_def download_gtk_release_def metadata_defs io_defs
        demo_defs download_args_def path_defs new_events_def str_int_def Let_def)





section \<open>Properties of the archive and the reveals\<close>



lemma grows:
  assumes "silent (\<lambda>e. False) m"
  obtains es where "events (snd (m w)) = events w @ es"
  using silentD [OF assms, of w] by auto

















end
